theory Spec2Isabelle
  imports Complex_Main
begin

section \<open>Data model\<close>

text \<open>
  The embedding follows \<^verbatim>\<open>internal/tools/engine.py\<close>, \<^verbatim>\<open>internal/tools/base.py\<close>,
  \<^verbatim>\<open>internal/agent/runtime.py\<close> and the pydantic models under \<^verbatim>\<open>internal/model\<close>.

  \<^item> A Python \<^verbatim>\<open>str\<close> is a \<open>string\<close>: a list of code points, of which \<open>char\<close>
    covers 0 to 255.
  \<^item> A \<^verbatim>\<open>dict[str, Any]\<close> (tool parameters, call contexts, context messages) is a map
    from strings to strings: every value the runtime itself puts into such a dict is a
    string.
  \<^item> A \<^verbatim>\<open>datetime\<close> is the number of microseconds since 0001-01-01 00:00:00, from 0 to
    \<open>datetime_max\<close> (9999-12-31 23:59:59.999999); a \<^verbatim>\<open>timedelta\<close> is a number of
    microseconds. Building a \<^verbatim>\<open>timedelta\<close> and subtracting it from a \<^verbatim>\<open>datetime\<close> raise
    OverflowError where CPython's \<^verbatim>\<open>datetime\<close> module does, with its texts.
  \<^item> A raised exception is a value: \<open>PyException msg\<close> stands for an instance of
    \<^verbatim>\<open>Exception\<close> whose \<^verbatim>\<open>str(e)\<close> is \<open>msg\<close>, and a function that may raise returns
    \<open>py_exception + 'a\<close> with \<open>Inl\<close> for the raise. What \<^verbatim>\<open>except Exception\<close> does not catch
    (the cancellation of the asyncio task, an interrupt) is outside the model.
  \<^item> Every \<^verbatim>\<open>datetime.utcnow()\<close> of one uninterrupted segment of a coroutine reads
    the same clock value, passed in as \<open>now\<close>.
\<close>

type_synonym py_dict = "string \<rightharpoonup> string"

type_synonym timestamp = int

datatype py_exception = PyException string

datatype ToolStatus =
  TOOL_PENDING | TOOL_RUNNING | TOOL_COMPLETED | TOOL_FAILED | TOOL_UNAUTHORIZED

datatype JobStatus = PENDING | RUNNING | COMPLETED | FAILED | CANCELLED

datatype MessageRole = SYSTEM | USER | ASSISTANT | TOOL

text \<open>\<^verbatim>\<open>model/tool.py\<close>: ToolDefinition and ToolExecutionResult (the fields the engine reads
  or writes).\<close>

record ToolDefinition =
  td_id :: string
  td_name :: string
  td_description :: string
  td_input_schema :: py_dict
  td_requires_auth :: bool
  td_rate_limit :: "int option"
  td_rate_window :: int
  td_is_active :: bool

record ToolExecutionResult =
  ter_tool_id :: string
  ter_call_id :: string
  ter_status :: ToolStatus
  ter_output :: "py_dict option"
  ter_error :: "string option"
  ter_started_at :: timestamp
  ter_completed_at :: timestamp

text \<open>\<^verbatim>\<open>tools/base.py\<close>: the abstract Tool. Its two methods are the tool author's code, so
  either may raise.\<close>

record Tool =
  tool_definition :: ToolDefinition
  tool_execute :: "py_dict \<Rightarrow> py_dict \<Rightarrow> py_exception + ToolExecutionResult"
  tool_validate_parameters :: "py_dict \<Rightarrow> py_exception + bool"

type_synonym ToolRegistry = "string \<rightharpoonup> Tool"

type_synonym rate_limit_counters = "string \<rightharpoonup> timestamp list"

section \<open>Dates and times\<close>

definition datetime_max :: timestamp where
  "datetime_max = 315537897599999999"

text \<open>\<^verbatim>\<open>str(n)\<close> for an integer: its decimal digits.\<close>

fun py_str_nat :: "nat \<Rightarrow> string" where
  "py_str_nat n =
     (if n < 10 then [''0123456789'' ! n]
      else py_str_nat (n div 10) @ [''0123456789'' ! (n mod 10)])"

declare py_str_nat.simps [simp del]

definition py_str_int :: "int \<Rightarrow> string" where
  "py_str_int i = (if i < 0 then CHR ''-'' # py_str_nat (nat (- i)) else py_str_nat (nat i))"

text \<open>
  \<^verbatim>\<open>timedelta(seconds=w)\<close> for an integer \<open>w\<close>: the day count \<open>w // 86400\<close> must fit a C int
  and be of magnitude at most 999999999. \<^verbatim>\<open>t - delta\<close> for a datetime \<open>t\<close>: the result must
  be a datetime.
\<close>

definition timedelta_seconds :: "int \<Rightarrow> py_exception + int" where
  "timedelta_seconds seconds =
     (let days = seconds div 86400 in
      if days < - 2147483648 \<or> 2147483647 < days
      then Inl (PyException ''Python int too large to convert to C int'')
      else if days < - 999999999 \<or> 999999999 < days
      then Inl (PyException
                  (''days='' @ py_str_int days @ ''; must have magnitude <= 999999999''))
      else Inr (1000000 * seconds))"

definition datetime_sub :: "timestamp \<Rightarrow> int \<Rightarrow> py_exception + timestamp" where
  "datetime_sub t delta =
     (if t - delta < 0 \<or> datetime_max < t - delta
      then Inl (PyException ''date value out of range'')
      else Inr (t - delta))"

section \<open>The tool engine\<close>

text \<open>\<^verbatim>\<open>d.get(key, default)\<close>.\<close>

definition dict_get :: "py_dict \<Rightarrow> string \<Rightarrow> string \<Rightarrow> string" where
  "dict_get d key dflt = (case d key of None \<Rightarrow> dflt | Some v \<Rightarrow> v)"

text \<open>\<^verbatim>\<open>ToolRegistry.get\<close> and \<^verbatim>\<open>ToolRegistry.get_definition\<close>.\<close>

definition registry_get :: "ToolRegistry \<Rightarrow> string \<Rightarrow> Tool option" where
  "registry_get registry tool_id = registry tool_id"

definition get_definition :: "ToolRegistry \<Rightarrow> string \<Rightarrow> ToolDefinition option" where
  "get_definition registry tool_id =
     (case registry tool_id of None \<Rightarrow> None | Some tool \<Rightarrow> Some (tool_definition tool))"

text \<open>\<^verbatim>\<open>self._rate_limit_counters[tool_id]\<close> on a \<^verbatim>\<open>defaultdict(list)\<close>: a missing key reads
  as the empty list.\<close>

definition counters_get :: "rate_limit_counters \<Rightarrow> string \<Rightarrow> timestamp list" where
  "counters_get counters tool_id = (case counters tool_id of None \<Rightarrow> [] | Some ts \<Rightarrow> ts)"

text \<open>\<^verbatim>\<open>ToolEngine._check_permissions\<close>: \<^verbatim>\<open>not user_id\<close> holds for a missing key and
  for the empty string.\<close>

definition check_permissions :: "Tool \<Rightarrow> py_dict \<Rightarrow> bool" where
  "check_permissions tool ctx =
     (if td_requires_auth (tool_definition tool)
      then (case ctx ''user_id'' of None \<Rightarrow> False | Some user_id \<Rightarrow> user_id \<noteq> [])
      else True)"

text \<open>\<^verbatim>\<open>ToolEngine._check_rate_limit\<close>, with the counters passed in and returned. The
  cutoff is \<^verbatim>\<open>now - timedelta(seconds=window)\<close>; when that raises, nothing has been recorded
  yet.\<close>

definition rate_cutoff :: "timestamp \<Rightarrow> int \<Rightarrow> py_exception + timestamp" where
  "rate_cutoff now window =
     (case timedelta_seconds window of
        Inl e \<Rightarrow> Inl e
      | Inr delta \<Rightarrow> datetime_sub now delta)"

definition check_rate_limit ::
  "rate_limit_counters \<Rightarrow> timestamp \<Rightarrow> Tool
     \<Rightarrow> py_exception + bool \<times> rate_limit_counters" where
  "check_rate_limit counters now tool =
     (case td_rate_limit (tool_definition tool) of
        None \<Rightarrow> Inr (True, counters)
      | Some rate_limit \<Rightarrow>
          (let tool_id = td_id (tool_definition tool);
               window = td_rate_window (tool_definition tool)
           in case rate_cutoff now window of
                Inl e \<Rightarrow> Inl e
              | Inr cutoff \<Rightarrow>
                  (let kept = filter (\<lambda>ts. ts > cutoff) (counters_get counters tool_id);
                       counters1 = counters(tool_id \<mapsto> kept)
                   in if int (length kept) \<ge> rate_limit then Inr (False, counters1)
                      else Inr (True, counters1(tool_id \<mapsto> kept @ [now])))))"

text \<open>The result \<^verbatim>\<open>execute_tool\<close> builds on each of its refusals.\<close>

definition refusal :: "string \<Rightarrow> py_dict \<Rightarrow> ToolStatus \<Rightarrow> string \<Rightarrow> timestamp \<Rightarrow> ToolExecutionResult" where
  "refusal tool_id ctx st msg now =
     \<lparr>ter_tool_id = tool_id, ter_call_id = dict_get ctx ''call_id'' [],
      ter_status = st, ter_output = None, ter_error = Some msg,
      ter_started_at = now, ter_completed_at = now\<rparr>"

text \<open>\<^verbatim>\<open>ToolEngine.execute_tool\<close>. The \<^verbatim>\<open>try\<close> encloses \<^verbatim>\<open>tool.execute\<close> only; the
  rate-limit check and \<^verbatim>\<open>tool.validate_parameters\<close> run before it.\<close>

definition execute_tool ::
  "ToolRegistry \<Rightarrow> rate_limit_counters \<Rightarrow> timestamp \<Rightarrow> string \<Rightarrow> py_dict \<Rightarrow> py_dict
     \<Rightarrow> (py_exception + ToolExecutionResult) \<times> rate_limit_counters" where
  "execute_tool registry counters now tool_id parameters ctx =
     (case registry_get registry tool_id of
        None \<Rightarrow>
          (Inr (refusal tool_id ctx TOOL_FAILED (''Tool not found: '' @ tool_id) now), counters)
      | Some tool \<Rightarrow>
          if \<not> check_permissions tool ctx
          then (Inr (refusal tool_id ctx TOOL_UNAUTHORIZED
                       ''Permission denied for tool execution'' now), counters)
          else
            (case check_rate_limit counters now tool of
               Inl e \<Rightarrow> (Inl e, counters)
             | Inr (allowed, counters1) \<Rightarrow>
                 if \<not> allowed
                 then (Inr (refusal tool_id ctx TOOL_FAILED ''Rate limit exceeded'' now), counters1)
                 else
                   (case tool_validate_parameters tool parameters of
                      Inl e \<Rightarrow> (Inl e, counters1)
                    | Inr valid \<Rightarrow>
                        if \<not> valid
                        then (Inr (refusal tool_id ctx TOOL_FAILED ''Invalid parameters'' now),
                              counters1)
                        else
                          (case tool_execute tool parameters ctx of
                             Inr result \<Rightarrow> (Inr result, counters1)
                           | Inl (PyException msg) \<Rightarrow>
                               (Inr (refusal tool_id ctx TOOL_FAILED msg now), counters1)))))"

text \<open>\<^verbatim>\<open>ToolEngine.get_tool_definitions\<close>: ids that do not resolve are skipped.\<close>

fun get_tool_definitions :: "ToolRegistry \<Rightarrow> string list \<Rightarrow> ToolDefinition list" where
  "get_tool_definitions registry [] = []"
| "get_tool_definitions registry (tool_id # tool_ids) =
     (case get_definition registry tool_id of
        None \<Rightarrow> get_tool_definitions registry tool_ids
      | Some defn \<Rightarrow> defn # get_tool_definitions registry tool_ids)"

text \<open>Tools for concrete runs. \<open>MockTool\<close> is the tool of \<^verbatim>\<open>test/test_tools.py\<close> with the
  flags of its definition as parameters (its result's timestamps read 0);
  \<open>IndexingTool\<close> is a tool whose validator reads \<^verbatim>\<open>parameters["query"]\<close> without testing
  for the key, so that a missing key raises \<^verbatim>\<open>KeyError('query')\<close>, whose \<^verbatim>\<open>str\<close> is the key in
  single quotes.\<close>

definition MockTool :: "bool \<Rightarrow> int option \<Rightarrow> int \<Rightarrow> Tool" where
  "MockTool requires_auth rate_limit rate_window =
     \<lparr>tool_definition =
        \<lparr>td_id = ''mock_tool'', td_name = ''Mock Tool'', td_description = ''A mock tool'',
         td_input_schema = [''type'' \<mapsto> ''object''], td_requires_auth = requires_auth,
         td_rate_limit = rate_limit, td_rate_window = rate_window, td_is_active = True\<rparr>,
      tool_execute = (\<lambda>parameters ctx.
        Inr \<lparr>ter_tool_id = ''mock_tool'', ter_call_id = dict_get ctx ''call_id'' [],
             ter_status = TOOL_COMPLETED, ter_output = Some (parameters |` {''value''}),
             ter_error = None,
             ter_started_at = 0, ter_completed_at = 0\<rparr>),
      tool_validate_parameters = (\<lambda>parameters. Inr (parameters ''value'' \<noteq> None))\<rparr>"

definition IndexingTool :: Tool where
  "IndexingTool =
     \<lparr>tool_definition =
        \<lparr>td_id = ''indexing_tool'', td_name = ''indexing_tool'', td_description = [],
         td_input_schema = Map.empty, td_requires_auth = False,
         td_rate_limit = None, td_rate_window = 60, td_is_active = True\<rparr>,
      tool_execute = (\<lambda>parameters ctx. Inl (PyException ''not implemented'')),
      tool_validate_parameters = (\<lambda>parameters.
        case parameters ''query'' of
          None \<Rightarrow> Inl (PyException (CHR 0x27 # ''query'' @ [CHR 0x27]))
        | Some q \<Rightarrow> Inr (q \<noteq> []))\<rparr>"

text \<open>Successive calls of \<^verbatim>\<open>_check_rate_limit\<close> on one engine for one tool, at the given
  clock readings: the answers in call order.\<close>

fun check_rate_limit_calls ::
  "rate_limit_counters \<Rightarrow> Tool \<Rightarrow> timestamp list \<Rightarrow> (py_exception + bool) list" where
  "check_rate_limit_calls counters tool [] = []"
| "check_rate_limit_calls counters tool (now # later) =
     (case check_rate_limit counters now tool of
        Inl e \<Rightarrow> Inl e # check_rate_limit_calls counters tool later
      | Inr (allowed, counters1) \<Rightarrow> Inr allowed # check_rate_limit_calls counters1 tool later)"

text \<open>
  The rate window in the words of the specification, for comparison: discard the recorded
  timestamps older than now minus the window; if fewer than limit remain, append now and
  answer true; otherwise answer false.
\<close>

definition spec_allow ::
  "timestamp list \<Rightarrow> timestamp \<Rightarrow> int \<Rightarrow> int \<Rightarrow> bool \<times> timestamp list" where
  "spec_allow recorded now limit window_seconds =
     (let remaining = filter (\<lambda>ts. \<not> ts < now - 1000000 * window_seconds) recorded
      in if int (length remaining) < limit then (True, remaining @ [now])
         else (False, remaining))"

section \<open>The agent runtime: models\<close>

text \<open>\<^verbatim>\<open>model/llm.py\<close>, \<^verbatim>\<open>model/agent.py\<close>, \<^verbatim>\<open>model/execution.py\<close>.\<close>

record ChatMessage =
  msg_role :: MessageRole
  msg_content :: string

record LLMToolDefinition =
  lt_name :: string
  lt_description :: string
  lt_input_schema :: py_dict

record ToolCall =
  tc_id :: string
  tc_name :: string
  tc_parameters :: py_dict

record Usage =
  usage_input_tokens :: int
  usage_output_tokens :: int

record ChatResponse =
  resp_content :: string
  resp_tool_calls :: "ToolCall list option"
  resp_usage :: Usage

record AgentConfig =
  cfg_temperature :: real
  cfg_max_tokens :: int
  cfg_timeout_seconds :: int

record Agent =
  agent_ident :: string
  agent_system_prompt :: string
  agent_config :: AgentConfig

record ExecutionContext =
  ec_chat_id :: string
  ec_recent_messages :: "py_dict list"

record AgentJob =
  job_id :: string
  job_agent_id :: string
  job_instruction :: string
  job_context :: ExecutionContext
  job_tools_allowed :: "string list"
  job_timeout_seconds :: int
  job_status :: JobStatus
  job_started_at :: "timestamp option"
  job_completed_at :: "timestamp option"

record ActionItem =
  ai_description :: string
  ai_assignee :: "string option"
  ai_priority :: string

record AgentResult =
  res_job_id :: string
  res_agent_id :: string
  res_status :: JobStatus
  res_response :: string
  res_action_items :: "ActionItem list"
  res_error :: "string option"
  res_input_tokens :: int
  res_output_tokens :: int
  res_started_at :: "timestamp option"
  res_completed_at :: "timestamp option"

text \<open>The text-generation backend, \<^verbatim>\<open>LLMService.chat\<close> as \<^verbatim>\<open>execute_job\<close> calls it: messages,
  tools, temperature, max_tokens. It returns a response or raises.\<close>

type_synonym LLMService =
  "ChatMessage list \<Rightarrow> LLMToolDefinition list option \<Rightarrow> real \<Rightarrow> int \<Rightarrow> py_exception + ChatResponse"

text \<open>
  The state of one \<^verbatim>\<open>AgentRuntime\<close>. An \<^verbatim>\<open>AgentJob\<close> is a mutable object that the caller,
  the coroutine running it and the ledger \<^verbatim>\<open>_active_jobs\<close> all refer to, so jobs live in
  a store \<open>rt_jobs\<close> indexed by reference and the ledger maps a job id to a reference.
\<close>

type_synonym job_ref = nat

record AgentRuntime =
  rt_agent_registry :: "string \<rightharpoonup> Agent"
  rt_tool_registry :: ToolRegistry
  rt_rate_limit_counters :: rate_limit_counters
  rt_active_jobs :: "string \<rightharpoonup> job_ref"
  rt_jobs :: "job_ref \<Rightarrow> AgentJob"

section \<open>The agent runtime: follow-up item extraction\<close>

text \<open>\<^verbatim>\<open>str.isspace\<close> on the code points below 256, \<^verbatim>\<open>str.strip()\<close>, \<^verbatim>\<open>str.startswith\<close>,
  \<^verbatim>\<open>str.split(sep)\<close> and \<^verbatim>\<open>str.split(sep, 1)\<close> for a one-character separator,
  \<^verbatim>\<open>sep.join\<close>.\<close>

definition py_isspace :: "char \<Rightarrow> bool" where
  "py_isspace c =
     (c \<in> set [CHR 0x09, CHR 0x0A, CHR 0x0B, CHR 0x0C, CHR 0x0D, CHR 0x1C, CHR 0x1D,
               CHR 0x1E, CHR 0x1F, CHR 0x20, CHR 0x85, CHR 0xA0])"

definition py_strip :: "string \<Rightarrow> string" where
  "py_strip s = rev (dropWhile py_isspace (rev (dropWhile py_isspace s)))"

definition py_startswith :: "string \<Rightarrow> string \<Rightarrow> bool" where
  "py_startswith s p = (take (length p) s = p)"

fun py_split :: "char \<Rightarrow> string \<Rightarrow> string list" where
  "py_split sep [] = [[]]"
| "py_split sep (c # cs) =
     (if c = sep then [] # py_split sep cs
      else (case py_split sep cs of
              [] \<Rightarrow> [[c]]
            | part # parts \<Rightarrow> (c # part) # parts))"

definition py_split_once :: "char \<Rightarrow> string \<Rightarrow> string list" where
  "py_split_once sep s =
     (if sep \<in> set s then [takeWhile (\<lambda>c. c \<noteq> sep) s, tl (dropWhile (\<lambda>c. c \<noteq> sep) s)]
      else [s])"

fun py_join :: "string \<Rightarrow> string list \<Rightarrow> string" where
  "py_join sep [] = []"
| "py_join sep [part] = part"
| "py_join sep (part # next_part # parts) = part @ sep @ py_join sep (next_part # parts)"

text \<open>\<^verbatim>\<open>ActionItem(description=desc)\<close>, the other fields at their defaults.\<close>

definition new_ActionItem :: "string \<Rightarrow> ActionItem" where
  "new_ActionItem desc = \<lparr>ai_description = desc, ai_assignee = None, ai_priority = ''medium''\<rparr>"

text \<open>The body of the loop of \<^verbatim>\<open>_extract_action_items\<close>: what one line appends.\<close>

definition line_action_items :: "string \<Rightarrow> ActionItem list" where
  "line_action_items raw_line =
     (let line = py_strip raw_line in
      if py_startswith line ''- ['' \<or> py_startswith line ''* ['' then
        (let desc = py_strip (last (py_split_once CHR '']'' line)) in
         if desc \<noteq> [] \<and> \<not> py_startswith desc ''['' then [new_ActionItem desc] else [])
      else [])"

fun extract_loop :: "string list \<Rightarrow> ActionItem list \<Rightarrow> ActionItem list" where
  "extract_loop [] action_items = action_items"
| "extract_loop (line # lines) action_items =
     extract_loop lines (action_items @ line_action_items line)"

definition extract_action_items :: "string \<Rightarrow> ActionItem list" where
  "extract_action_items content = extract_loop (py_split CHR 0x0A content) []"

text \<open>
  The extraction rule in the words of the specification, for comparison: a line that,
  trimmed, begins with \<^verbatim>\<open>- [\<close> or \<^verbatim>\<open>* [\<close> gives one item, described by the trimmed text
  after the first \<^verbatim>\<open>]\<close>, provided that text does not start with \<^verbatim>\<open>[\<close>.
\<close>

definition spec_line_descriptions :: "string \<Rightarrow> string list" where
  "spec_line_descriptions raw_line =
     (let line = py_strip raw_line in
      if py_startswith line ''- ['' \<or> py_startswith line ''* ['' then
        (let remaining = py_strip (tl (dropWhile (\<lambda>c. c \<noteq> CHR '']'') line)) in
         if \<not> py_startswith remaining ''['' then [remaining] else [])
      else [])"

definition spec_follow_up_descriptions :: "string \<Rightarrow> string list" where
  "spec_follow_up_descriptions content =
     concat (map spec_line_descriptions (py_split CHR 0x0A content))"

section \<open>The agent runtime: operations\<close>

text \<open>\<^verbatim>\<open>AgentRuntime.get_agent\<close>.\<close>

definition get_agent :: "AgentRuntime \<Rightarrow> string \<Rightarrow> Agent option" where
  "get_agent rt agent_id = rt_agent_registry rt agent_id"

text \<open>\<^verbatim>\<open>AgentRuntime._prepare_messages\<close>.\<close>

definition prepare_messages :: "Agent \<Rightarrow> AgentJob \<Rightarrow> ChatMessage list" where
  "prepare_messages agent job =
     (let messages = [\<lparr>msg_role = SYSTEM, msg_content = agent_system_prompt agent\<rparr>];
          context_parts =
            map (\<lambda>msg. dict_get msg ''role'' ''user'' @ '': '' @ dict_get msg ''content'' [])
              (ec_recent_messages (job_context job));
          messages1 =
            (if context_parts \<noteq> []
             then messages @
               [\<lparr>msg_role = USER,
                 msg_content = ''Recent conversation:'' @ [CHR 0x0A] @ py_join [CHR 0x0A] context_parts\<rparr>]
             else messages)
      in messages1 @ [\<lparr>msg_role = USER, msg_content = job_instruction job\<rparr>])"

text \<open>The context dict that \<^verbatim>\<open>_handle_tool_calls\<close> builds for one tool call.\<close>

definition tool_call_context :: "AgentJob \<Rightarrow> ToolCall \<Rightarrow> py_dict" where
  "tool_call_context job tool_call =
     [''call_id'' \<mapsto> tc_id tool_call,
      ''job_id'' \<mapsto> job_id job,
      ''agent_id'' \<mapsto> job_agent_id job,
      ''chat_id'' \<mapsto> ec_chat_id (job_context job)]"

text \<open>
  \<^verbatim>\<open>AgentRuntime._handle_tool_calls\<close>: the calls run in order and a fault out of
  \<^verbatim>\<open>execute_tool\<close> ends the loop. The source binds each outcome to \<^verbatim>\<open>result\<close> and drops
  it; the model hands the outcomes back in call order, so that statements can speak of
  them. Nothing in the model reads them.
\<close>

fun handle_tool_calls ::
  "ToolRegistry \<Rightarrow> rate_limit_counters \<Rightarrow> timestamp \<Rightarrow> AgentJob \<Rightarrow> ToolCall list
     \<Rightarrow> (py_exception + ToolExecutionResult list) \<times> rate_limit_counters" where
  "handle_tool_calls registry counters now job [] = (Inr [], counters)"
| "handle_tool_calls registry counters now job (tool_call # tool_calls) =
     (case execute_tool registry counters now (tc_name tool_call) (tc_parameters tool_call)
             (tool_call_context job tool_call) of
        (Inl e, counters1) \<Rightarrow> (Inl e, counters1)
      | (Inr result, counters1) \<Rightarrow>
          (case handle_tool_calls registry counters1 now job tool_calls of
             (Inl e, counters2) \<Rightarrow> (Inl e, counters2)
           | (Inr results, counters2) \<Rightarrow> (Inr (result # results), counters2)))"

text \<open>\<^verbatim>\<open>AgentRuntime._process_response\<close>.\<close>

definition process_response :: "Agent \<Rightarrow> AgentJob \<Rightarrow> ChatResponse \<Rightarrow> timestamp \<Rightarrow> AgentResult" where
  "process_response agent job response now =
     (let action_items = extract_action_items (resp_content response) in
      \<lparr>res_job_id = job_id job, res_agent_id = agent_ident agent, res_status = COMPLETED,
       res_response = resp_content response, res_action_items = action_items,
       res_error = None,
       res_input_tokens = usage_input_tokens (resp_usage response),
       res_output_tokens = usage_output_tokens (resp_usage response),
       res_started_at = job_started_at job, res_completed_at = Some now\<rparr>)"

text \<open>An \<^verbatim>\<open>AgentResult\<close> with status FAILED and the given error, the other fields at their
  defaults, as \<^verbatim>\<open>execute_job\<close> builds it twice.\<close>

definition failed_result :: "AgentJob \<Rightarrow> string \<Rightarrow> AgentResult" where
  "failed_result job msg =
     \<lparr>res_job_id = job_id job, res_agent_id = job_agent_id job, res_status = FAILED,
      res_response = [], res_action_items = [], res_error = Some msg,
      res_input_tokens = 0, res_output_tokens = 0,
      res_started_at = None, res_completed_at = None\<rparr>"

text \<open>
  \<^verbatim>\<open>AgentRuntime.execute_job\<close> suspends at \<^verbatim>\<open>await self._llm_service.chat(...)\<close>, where
  other coroutines of the same runtime (a \<^verbatim>\<open>cancel_job\<close>, another \<^verbatim>\<open>execute_job\<close>) may
  run. It is therefore two steps: \<open>execute_job_start\<close>, up to the backend call, which
  yields either the early result or the request for the backend; and
  \<open>execute_job_resume\<close>, from the backend's answer (a response or a fault) to the
  return, \<^verbatim>\<open>finally\<close> included. The tool calls of a response run inside the second
  step: a tool is a function of its parameters and context here, so its own awaits are
  not points of interleaving in the model.
\<close>

datatype job_start =
  AgentNotFound AgentResult
| AwaitBackend Agent "ChatMessage list" "LLMToolDefinition list option"

definition execute_job_start :: "AgentRuntime \<Rightarrow> job_ref \<Rightarrow> timestamp \<Rightarrow> job_start \<times> AgentRuntime" where
  "execute_job_start rt ref now =
     (let job = rt_jobs rt ref in
      case get_agent rt (job_agent_id job) of
        None \<Rightarrow> (AgentNotFound (failed_result job (''Agent not found: '' @ job_agent_id job)), rt)
      | Some agent \<Rightarrow>
          (let rt1 = rt\<lparr>rt_active_jobs := (rt_active_jobs rt)(job_id job \<mapsto> ref)\<rparr>;
               job1 = job\<lparr>job_status := RUNNING, job_started_at := Some now\<rparr>;
               rt2 = rt1\<lparr>rt_jobs := (rt_jobs rt1)(ref := job1)\<rparr>;
               messages = prepare_messages agent job1;
               tool_definitions =
                 get_tool_definitions (rt_tool_registry rt2) (job_tools_allowed job1);
               llm_tools =
                 map (\<lambda>td. \<lparr>lt_name = td_name td, lt_description = td_description td,
                              lt_input_schema = td_input_schema td\<rparr>) tool_definitions
           in (AwaitBackend agent messages (if llm_tools \<noteq> [] then Some llm_tools else None),
               rt2)))"

text \<open>The \<^verbatim>\<open>except Exception\<close> branch of \<^verbatim>\<open>execute_job\<close>.\<close>

definition job_failed ::
  "AgentRuntime \<Rightarrow> job_ref \<Rightarrow> py_exception \<Rightarrow> timestamp \<Rightarrow> AgentResult \<times> AgentRuntime" where
  "job_failed rt ref e now =
     (case e of PyException msg \<Rightarrow>
        (let job1 = (rt_jobs rt ref)\<lparr>job_status := FAILED, job_completed_at := Some now\<rparr>
         in (failed_result job1 msg, rt\<lparr>rt_jobs := (rt_jobs rt)(ref := job1)\<rparr>)))"

definition execute_job_resume ::
  "AgentRuntime \<Rightarrow> job_ref \<Rightarrow> Agent \<Rightarrow> py_exception + ChatResponse \<Rightarrow> timestamp
     \<Rightarrow> AgentResult \<times> AgentRuntime" where
  "execute_job_resume rt ref agent outcome now =
     (let (result, rt_done) =
        (case outcome of
           Inl e \<Rightarrow> job_failed rt ref e now
         | Inr response \<Rightarrow>
             (case (case resp_tool_calls response of
                      None \<Rightarrow> (Inr [], rt_rate_limit_counters rt)
                    | Some tool_calls \<Rightarrow>
                        if tool_calls = [] then (Inr [], rt_rate_limit_counters rt)
                        else handle_tool_calls (rt_tool_registry rt) (rt_rate_limit_counters rt)
                               now (rt_jobs rt ref) tool_calls) of
                (Inl e, counters1) \<Rightarrow> job_failed (rt\<lparr>rt_rate_limit_counters := counters1\<rparr>) ref e now
              | (Inr tool_results, counters1) \<Rightarrow>
                  (let rt1 = rt\<lparr>rt_rate_limit_counters := counters1\<rparr>;
                       job = rt_jobs rt1 ref;
                       result = process_response agent job response now;
                       job1 = job\<lparr>job_status := COMPLETED, job_completed_at := Some now\<rparr>
                   in (result, rt1\<lparr>rt_jobs := (rt_jobs rt1)(ref := job1)\<rparr>))))
      in (result,
          rt_done\<lparr>rt_active_jobs :=
            (rt_active_jobs rt_done)(job_id (rt_jobs rt_done ref) := None)\<rparr>))"

text \<open>\<^verbatim>\<open>execute_job\<close> run without interruption: it starts at \<open>t0\<close> and the backend answers
  at \<open>t1\<close>.\<close>

definition execute_job ::
  "LLMService \<Rightarrow> AgentRuntime \<Rightarrow> job_ref \<Rightarrow> timestamp \<Rightarrow> timestamp \<Rightarrow> AgentResult \<times> AgentRuntime" where
  "execute_job llm rt ref t0 t1 =
     (case execute_job_start rt ref t0 of
        (AgentNotFound result, rt1) \<Rightarrow> (result, rt1)
      | (AwaitBackend agent messages tools, rt1) \<Rightarrow>
          execute_job_resume rt1 ref agent
            (llm messages tools (cfg_temperature (agent_config agent))
               (cfg_max_tokens (agent_config agent)))
            t1)"

text \<open>\<^verbatim>\<open>AgentRuntime.cancel_job\<close>: one uninterrupted step under the job lock.\<close>

definition cancel_job :: "AgentRuntime \<Rightarrow> string \<Rightarrow> timestamp \<Rightarrow> bool \<times> AgentRuntime" where
  "cancel_job rt jid now =
     (case rt_active_jobs rt jid of
        None \<Rightarrow> (False, rt)
      | Some ref \<Rightarrow>
          if job_status (rt_jobs rt ref) = RUNNING
          then (let job1 = (rt_jobs rt ref)\<lparr>job_status := CANCELLED, job_completed_at := Some now\<rparr>;
                    rt1 = rt\<lparr>rt_jobs := (rt_jobs rt)(ref := job1)\<rparr>
                in (True, rt1\<lparr>rt_active_jobs := (rt_active_jobs rt1)(jid := None)\<rparr>))
          else (False, rt))"

text \<open>
  A schedule of one runtime: the steps its event loop runs, in order. A step is the start
  of an \<^verbatim>\<open>execute_job\<close>, the continuation of one once its backend has answered, or a
  \<^verbatim>\<open>cancel_job\<close>. \<open>run_ops\<close> gives the answers of the \<^verbatim>\<open>cancel_job\<close> calls of a schedule, each
  with its job id; \<open>starts_job_id\<close> tells whether a step submits a job with the given id.
\<close>

datatype runtime_op =
  StartJob job_ref timestamp
| ResumeJob job_ref Agent "py_exception + ChatResponse" timestamp
| CancelJob string timestamp

fun run_ops :: "AgentRuntime \<Rightarrow> runtime_op list \<Rightarrow> (string \<times> bool) list" where
  "run_ops rt [] = []"
| "run_ops rt (StartJob ref now # ops) = run_ops (snd (execute_job_start rt ref now)) ops"
| "run_ops rt (ResumeJob ref agent outcome now # ops) =
     run_ops (snd (execute_job_resume rt ref agent outcome now)) ops"
| "run_ops rt (CancelJob jid now # ops) =
     (case cancel_job rt jid now of (cancelled, rt1) \<Rightarrow> (jid, cancelled) # run_ops rt1 ops)"

fun starts_job_id :: "AgentRuntime \<Rightarrow> string \<Rightarrow> runtime_op \<Rightarrow> bool" where
  "starts_job_id rt jid (StartJob ref now) = (job_id (rt_jobs rt ref) = jid)"
| "starts_job_id rt jid (ResumeJob ref agent outcome now) = False"
| "starts_job_id rt jid (CancelJob jid' now) = False"

text \<open>A runtime for concrete runs: one registered agent, one job for it at reference 0
  (every other reference holds a job for an agent nobody registered), an empty ledger,
  and a backend that answers with plain text.\<close>

definition demo_agent :: Agent where
  "demo_agent =
     \<lparr>agent_ident = ''a1'', agent_system_prompt = ''You are a test agent'',
      agent_config = \<lparr>cfg_temperature = 0.7, cfg_max_tokens = 2000, cfg_timeout_seconds = 30\<rparr>\<rparr>"

definition demo_job :: "string \<Rightarrow> string \<Rightarrow> int \<Rightarrow> AgentJob" where
  "demo_job jid agent_id timeout_seconds =
     \<lparr>job_id = jid, job_agent_id = agent_id, job_instruction = ''test'',
      job_context = \<lparr>ec_chat_id = ''chat-1'', ec_recent_messages = []\<rparr>,
      job_tools_allowed = [], job_timeout_seconds = timeout_seconds,
      job_status = PENDING, job_started_at = None, job_completed_at = None\<rparr>"

definition demo_runtime :: "ToolRegistry \<Rightarrow> AgentJob \<Rightarrow> AgentRuntime" where
  "demo_runtime registry job =
     \<lparr>rt_agent_registry = [''a1'' \<mapsto> demo_agent],
      rt_tool_registry = registry,
      rt_rate_limit_counters = Map.empty,
      rt_active_jobs = Map.empty,
      rt_jobs = (\<lambda>r. if r = 0 then job else demo_job ''other'' ''nobody'' 30)\<rparr>"

definition text_response :: "string \<Rightarrow> ChatResponse" where
  "text_response content =
     \<lparr>resp_content = content, resp_tool_calls = None,
      resp_usage = \<lparr>usage_input_tokens = 10, usage_output_tokens = 5\<rparr>\<rparr>"

definition text_backend :: "string \<Rightarrow> LLMService" where
  "text_backend content = (\<lambda>messages tools temperature max_tokens. Inr (text_response content))"

definition failing_backend :: "string \<Rightarrow> LLMService" where
  "failing_backend msg = (\<lambda>messages tools temperature max_tokens. Inl (PyException msg))"

section \<open>Rate window\<close>

lemma rate_cutoff_Inr:
  "rate_cutoff now window = Inr cutoff \<Longrightarrow>
   cutoff = now - 1000000 * window \<and> 0 \<le> cutoff \<and> cutoff \<le> datetime_max"
  by (auto simp add: rate_cutoff_def timedelta_seconds_def datetime_sub_def Let_def
        split: sum.splits if_splits)

lemma rate_cutoff_in_range:
  assumes "0 \<le> now" "now \<le> datetime_max"
      and "0 \<le> now - 1000000 * window" "now - 1000000 * window \<le> datetime_max"
  shows "rate_cutoff now window = Inr (now - 1000000 * window)"
proof -
  from assms have "- 315537897599 \<le> window" "window \<le> 315537897599"
    by (simp_all add: datetime_max_def)
  then have "- 999999999 \<le> window div 86400" "window div 86400 \<le> 999999999"
    by linarith+
  with assms(3,4) show ?thesis
    by (simp add: rate_cutoff_def timedelta_seconds_def datetime_sub_def Let_def)
qed

lemma check_rate_limit_no_limit:
  "td_rate_limit (tool_definition tool) = None \<Longrightarrow>
   check_rate_limit counters now tool = Inr (True, counters)"
  by (simp add: check_rate_limit_def)

lemma check_rate_limit_fault:
  "td_rate_limit (tool_definition tool) = Some limit \<Longrightarrow>
   rate_cutoff now (td_rate_window (tool_definition tool)) = Inl e \<Longrightarrow>
   check_rate_limit counters now tool = Inl e"
  by (simp add: check_rate_limit_def Let_def)

lemma check_rate_limit_limited:
  "td_rate_limit (tool_definition tool) = Some limit \<Longrightarrow>
   rate_cutoff now (td_rate_window (tool_definition tool)) = Inr cutoff \<Longrightarrow>
   check_rate_limit counters now tool =
     Inr (let tool_id = td_id (tool_definition tool);
              remaining = filter (\<lambda>ts. cutoff < ts) (counters_get counters tool_id)
          in if int (length remaining) < limit
             then (True, counters(tool_id \<mapsto> remaining @ [now]))
             else (False, counters(tool_id \<mapsto> remaining)))"
  by (auto simp add: check_rate_limit_def Let_def)

lemma check_rate_limit_calls_scenario:
  assumes lim: "td_rate_limit (tool_definition tool) = Some 2"
      and win: "td_rate_window (tool_definition tool) = 60"
      and emp: "counters_get counters (td_id (tool_definition tool)) = []"
      and t: "60000000 \<le> t1" "t1 \<le> t2" "t2 \<le> t3" "t3 < t1 + 60000000"
             "t1 + 60000000 \<le> t4" "t4 \<le> datetime_max"
  shows "check_rate_limit_calls counters tool [t1, t2, t3, t4] =
           [Inr True, Inr True, Inr False, Inr True]"
proof -
  have c: "rate_cutoff t (td_rate_window (tool_definition tool)) = Inr (t - 60000000)"
    if "60000000 \<le> t" "t \<le> datetime_max" for t
    using that rate_cutoff_in_range [of t 60] by (simp add: win)
  from t have r: "60000000 \<le> t2" "60000000 \<le> t3" "60000000 \<le> t4"
    "t1 \<le> datetime_max" "t2 \<le> datetime_max" "t3 \<le> datetime_max"
    by linarith+
  note step = check_rate_limit_limited [OF lim c]
  show ?thesis
    using t r emp
    by (simp add: step Let_def counters_get_def)
qed

text \<open>
  Claim C6, as amended. The rate-limit check is a rolling window. With no limit declared
  it answers true and records nothing. With a limit, and with now minus the window a
  datetime, it keeps exactly the recorded timestamps newer than now minus the window (it
  drops the older ones and those exactly one window old), answers true and appends now
  when fewer than limit remain, and answers false otherwise, leaving the other tools'
  records alone; when now minus the window is not a datetime it raises the OverflowError
  of the subtraction and records nothing. Hence with limit 2 and a window of 60 seconds,
  three calls within the window answer true, true, false, and a call once the window
  has elapsed since the first answers true.
\<close>

theorem check_rate_limit_rolling_window:
  "(td_rate_limit (tool_definition tool) = None \<longrightarrow>
      check_rate_limit counters now tool = Inr (True, counters))
   \<and> (\<forall>limit e. td_rate_limit (tool_definition tool) = Some limit
          \<and> rate_cutoff now (td_rate_window (tool_definition tool)) = Inl e \<longrightarrow>
        check_rate_limit counters now tool = Inl e)
   \<and> (\<forall>limit. td_rate_limit (tool_definition tool) = Some limit
          \<and> 0 \<le> now \<and> now \<le> datetime_max
          \<and> 0 \<le> now - 1000000 * td_rate_window (tool_definition tool)
          \<and> now - 1000000 * td_rate_window (tool_definition tool) \<le> datetime_max \<longrightarrow>
        (let tool_id = td_id (tool_definition tool);
             cutoff = now - 1000000 * td_rate_window (tool_definition tool);
             recorded = counters_get counters tool_id;
             remaining = filter (\<lambda>ts. cutoff < ts) recorded
         in (\<forall>ts \<in> set recorded. ts \<in> set remaining \<longleftrightarrow> cutoff < ts)
            \<and> check_rate_limit counters now tool =
                Inr (if int (length remaining) < limit
                     then (True, counters(tool_id \<mapsto> remaining @ [now]))
                     else (False, counters(tool_id \<mapsto> remaining)))))
   \<and> (td_rate_limit (tool_definition tool) = Some 2
        \<and> td_rate_window (tool_definition tool) = 60
        \<and> counters_get counters (td_id (tool_definition tool)) = []
        \<and> 60000000 \<le> t1 \<and> t1 \<le> t2 \<and> t2 \<le> t3 \<and> t3 < t1 + 60000000
        \<and> t1 + 60000000 \<le> t4 \<and> t4 \<le> datetime_max \<longrightarrow>
        check_rate_limit_calls counters tool [t1, t2, t3, t4] =
          [Inr True, Inr True, Inr False, Inr True])"
proof (intro conjI impI allI)
  assume "td_rate_limit (tool_definition tool) = None"
  then show "check_rate_limit counters now tool = Inr (True, counters)"
    by (rule check_rate_limit_no_limit)
next
  fix limit e
  assume "td_rate_limit (tool_definition tool) = Some limit
          \<and> rate_cutoff now (td_rate_window (tool_definition tool)) = Inl e"
  then show "check_rate_limit counters now tool = Inl e"
    by (simp add: check_rate_limit_fault)
next
  fix limit
  assume a: "td_rate_limit (tool_definition tool) = Some limit
          \<and> 0 \<le> now \<and> now \<le> datetime_max
          \<and> 0 \<le> now - 1000000 * td_rate_window (tool_definition tool)
          \<and> now - 1000000 * td_rate_window (tool_definition tool) \<le> datetime_max"
  then have lim: "td_rate_limit (tool_definition tool) = Some limit"
    by simp
  from a have cut: "rate_cutoff now (td_rate_window (tool_definition tool)) =
                      Inr (now - 1000000 * td_rate_window (tool_definition tool))"
    by (simp add: rate_cutoff_in_range)
  show "let tool_id = td_id (tool_definition tool);
            cutoff = now - 1000000 * td_rate_window (tool_definition tool);
            recorded = counters_get counters tool_id;
            remaining = filter (\<lambda>ts. cutoff < ts) recorded
        in (\<forall>ts \<in> set recorded. ts \<in> set remaining \<longleftrightarrow> cutoff < ts)
           \<and> check_rate_limit counters now tool =
               Inr (if int (length remaining) < limit
                    then (True, counters(tool_id \<mapsto> remaining @ [now]))
                    else (False, counters(tool_id \<mapsto> remaining)))"
    by (simp add: check_rate_limit_limited [OF lim cut] Let_def)
next
  assume "td_rate_limit (tool_definition tool) = Some 2
        \<and> td_rate_window (tool_definition tool) = 60
        \<and> counters_get counters (td_id (tool_definition tool)) = []
        \<and> 60000000 \<le> t1 \<and> t1 \<le> t2 \<and> t2 \<le> t3 \<and> t3 < t1 + 60000000
        \<and> t1 + 60000000 \<le> t4 \<and> t4 \<le> datetime_max"
  then show "check_rate_limit_calls counters tool [t1, t2, t3, t4] =
          [Inr True, Inr True, Inr False, Inr True]"
    by (elim conjE) (rule check_rate_limit_calls_scenario; assumption)
qed

theorem check_rate_limit_rolling_window_witness:
  "check_rate_limit Map.empty 63900000000000000 (MockTool False None 60) = Inr (True, Map.empty)
   \<and> check_rate_limit_calls Map.empty (MockTool False (Some 2) 60)
        [63900000000000000, 63900000000000000, 63900000000000000, 63900000060000000]
       = [Inr True, Inr True, Inr False, Inr True]
   \<and> check_rate_limit [''mock_tool'' \<mapsto> [63900000000000000, 63900000001000000]]
        63900000060500000 (MockTool False (Some 2) 60)
       = Inr (True, [''mock_tool'' \<mapsto> [63900000001000000, 63900000060500000]])
   \<and> check_rate_limit [''mock_tool'' \<mapsto> [63900000000000000]] 63900000060000000
        (MockTool False (Some 1) 100000000000)
       = Inl (PyException ''date value out of range'')"
proof -
  let ?tool = "MockTool False (Some 2) 60"
  let ?wide = "MockTool False (Some 1) 100000000000"
  have lim: "td_rate_limit (tool_definition ?tool) = Some 2"
    and win: "td_rate_window (tool_definition ?tool) = 60"
    and tid: "td_id (tool_definition ?tool) = ''mock_tool''"
    by (simp_all add: MockTool_def)
  have none: "td_rate_limit (tool_definition (MockTool False None 60)) = None"
    by (simp add: MockTool_def)
  have wide: "td_rate_limit (tool_definition ?wide) = Some 1
         \<and> rate_cutoff 63900000060000000 (td_rate_window (tool_definition ?wide))
             = Inl (PyException ''date value out of range'')"
    by (simp add: MockTool_def rate_cutoff_def timedelta_seconds_def datetime_sub_def)
  note a = check_rate_limit_rolling_window
             [of "MockTool False None 60" Map.empty 63900000000000000 0 0 0 0]
  note b = check_rate_limit_rolling_window
             [of ?tool "[''mock_tool'' \<mapsto> [63900000000000000, 63900000001000000]]"
                 63900000060500000 0 0 0 0]
  note c = check_rate_limit_rolling_window
             [of ?tool Map.empty 0 63900000000000000 63900000000000000 63900000000000000
                 63900000060000000]
  note d = check_rate_limit_rolling_window
             [of ?wide "[''mock_tool'' \<mapsto> [63900000000000000]]" 63900000060000000 0 0 0 0]
  from a none
  have 1: "check_rate_limit Map.empty 63900000000000000 (MockTool False None 60)
             = Inr (True, Map.empty)"
    by blast
  from c lim win tid
  have 2: "check_rate_limit_calls Map.empty ?tool
        [63900000000000000, 63900000000000000, 63900000000000000, 63900000060000000]
       = [Inr True, Inr True, Inr False, Inr True]"
    by (simp add: counters_get_def datetime_max_def)
  from b lim
  have 3: "check_rate_limit [''mock_tool'' \<mapsto> [63900000000000000, 63900000001000000]]
        63900000060500000 ?tool
       = Inr (True, [''mock_tool'' \<mapsto> [63900000001000000, 63900000060500000]])"
    by (simp add: Let_def win tid counters_get_def datetime_max_def)
  from d wide
  have 4: "check_rate_limit [''mock_tool'' \<mapsto> [63900000000000000]] 63900000060000000 ?wide
       = Inl (PyException ''date value out of range'')"
    by blast
  from 1 2 3 4 show ?thesis by (intro conjI)
qed

text \<open>
  Claim C6 as stated fails at the edge of the window: with two calls recorded at one
  instant, limit 2 and a window of 60 seconds, a call exactly 60 seconds later is allowed
  by \<^verbatim>\<open>_check_rate_limit\<close>, which drops both stamps, and denied by the rule of the
  specification, which discards only stamps older than now minus the window.
\<close>

theorem stamp_one_window_old_is_dropped:
  "check_rate_limit [''mock_tool'' \<mapsto> [63900000000000000, 63900000000000000]]
     63900000060000000 (MockTool False (Some 2) 60)
     = Inr (True, [''mock_tool'' \<mapsto> [63900000060000000]])
   \<and> spec_allow [63900000000000000, 63900000000000000] 63900000060000000 2 60
     = (False, [63900000000000000, 63900000000000000])"
  by (simp add: check_rate_limit_def rate_cutoff_def timedelta_seconds_def datetime_sub_def
        datetime_max_def MockTool_def counters_get_def spec_allow_def Let_def)

section \<open>Invocation gate\<close>

lemma execute_tool_not_found:
  "registry tool_id = None \<Longrightarrow>
   execute_tool registry counters now tool_id parameters ctx =
     (Inr (refusal tool_id ctx TOOL_FAILED (''Tool not found: '' @ tool_id) now), counters)"
  by (simp add: execute_tool_def registry_get_def)

lemma execute_tool_unauthorized:
  "registry tool_id = Some tool \<Longrightarrow> \<not> check_permissions tool ctx \<Longrightarrow>
   execute_tool registry counters now tool_id parameters ctx =
     (Inr (refusal tool_id ctx TOOL_UNAUTHORIZED ''Permission denied for tool execution'' now),
      counters)"
  by (simp add: execute_tool_def registry_get_def)

lemma execute_tool_rate_fault:
  "registry tool_id = Some tool \<Longrightarrow> check_permissions tool ctx \<Longrightarrow>
   check_rate_limit counters now tool = Inl e \<Longrightarrow>
   execute_tool registry counters now tool_id parameters ctx = (Inl e, counters)"
  by (simp add: execute_tool_def registry_get_def)

lemma execute_tool_rate_limited:
  "registry tool_id = Some tool \<Longrightarrow> check_permissions tool ctx \<Longrightarrow>
   check_rate_limit counters now tool = Inr (False, counters1) \<Longrightarrow>
   execute_tool registry counters now tool_id parameters ctx =
     (Inr (refusal tool_id ctx TOOL_FAILED ''Rate limit exceeded'' now), counters1)"
  by (simp add: execute_tool_def registry_get_def)

lemma execute_tool_validated:
  "registry tool_id = Some tool \<Longrightarrow> check_permissions tool ctx \<Longrightarrow>
   check_rate_limit counters now tool = Inr (True, counters1) \<Longrightarrow>
   execute_tool registry counters now tool_id parameters ctx =
     (case tool_validate_parameters tool parameters of
        Inl e \<Rightarrow> Inl e
      | Inr valid \<Rightarrow>
          if \<not> valid then Inr (refusal tool_id ctx TOOL_FAILED ''Invalid parameters'' now)
          else (case tool_execute tool parameters ctx of
                  Inr result \<Rightarrow> Inr result
                | Inl (PyException msg) \<Rightarrow> Inr (refusal tool_id ctx TOOL_FAILED msg now)),
      counters1)"
  by (simp add: execute_tool_def registry_get_def split: sum.splits py_exception.splits)

lemma no_user_id_no_permission:
  "td_requires_auth (tool_definition tool) \<Longrightarrow> ctx ''user_id'' = None \<Longrightarrow>
   \<not> check_permissions tool ctx"
  by (simp add: check_permissions_def)

text \<open>
  Claim C1, as amended. \<^verbatim>\<open>execute_tool\<close> returns a ToolExecutionResult with an error text
  when the tool is unknown, permission is missing, the rate limit denies the call or the
  parameters are invalid; it returns the tool's own result when \<^verbatim>\<open>execute\<close> returns; and
  a fault of class Exception raised by \<^verbatim>\<open>execute\<close> becomes a FAILED result that carries
  the fault's description. Faults raised before the \<^verbatim>\<open>try\<close> are not contained: a fault
  raised by the tool's \<^verbatim>\<open>validate_parameters\<close>, and the OverflowError of the rate-limit
  check, reach the caller of \<^verbatim>\<open>execute_tool\<close>.
\<close>

theorem execute_tool_fault_containment:
  "(\<forall>tool counters1 msg. registry tool_id = Some tool \<and> check_permissions tool ctx
         \<and> check_rate_limit counters now tool = Inr (True, counters1)
         \<and> tool_validate_parameters tool parameters = Inr True
         \<and> tool_execute tool parameters ctx = Inl (PyException msg) \<longrightarrow>
         execute_tool registry counters now tool_id parameters ctx =
           (Inr (refusal tool_id ctx TOOL_FAILED msg now), counters1))
   \<and> (\<forall>tool counters1 result. registry tool_id = Some tool \<and> check_permissions tool ctx
         \<and> check_rate_limit counters now tool = Inr (True, counters1)
         \<and> tool_validate_parameters tool parameters = Inr True
         \<and> tool_execute tool parameters ctx = Inr result \<longrightarrow>
         execute_tool registry counters now tool_id parameters ctx = (Inr result, counters1))
   \<and> ((registry tool_id = None
         \<or> (\<exists>tool. registry tool_id = Some tool
               \<and> (\<not> check_permissions tool ctx
                    \<or> check_permissions tool ctx
                      \<and> ((\<exists>counters1. check_rate_limit counters now tool = Inr (False, counters1))
                         \<or> (\<exists>counters1. check_rate_limit counters now tool = Inr (True, counters1)
                               \<and> tool_validate_parameters tool parameters = Inr False))))) \<longrightarrow>
        (\<exists>result. fst (execute_tool registry counters now tool_id parameters ctx) = Inr result
            \<and> (ter_status result = TOOL_FAILED \<or> ter_status result = TOOL_UNAUTHORIZED)
            \<and> ter_error result \<noteq> None))
   \<and> (\<forall>tool counters1 e. registry tool_id = Some tool \<and> check_permissions tool ctx
         \<and> check_rate_limit counters now tool = Inr (True, counters1)
         \<and> tool_validate_parameters tool parameters = Inl e \<longrightarrow>
         execute_tool registry counters now tool_id parameters ctx = (Inl e, counters1))
   \<and> (\<forall>tool e. registry tool_id = Some tool \<and> check_permissions tool ctx
         \<and> check_rate_limit counters now tool = Inl e \<longrightarrow>
         execute_tool registry counters now tool_id parameters ctx = (Inl e, counters))"
proof (intro conjI allI impI)
  fix tool counters1 msg
  assume "registry tool_id = Some tool \<and> check_permissions tool ctx
         \<and> check_rate_limit counters now tool = Inr (True, counters1)
         \<and> tool_validate_parameters tool parameters = Inr True
         \<and> tool_execute tool parameters ctx = Inl (PyException msg)"
  then show "execute_tool registry counters now tool_id parameters ctx =
           (Inr (refusal tool_id ctx TOOL_FAILED msg now), counters1)"
    by (simp add: execute_tool_validated)
next
  fix tool counters1 result
  assume "registry tool_id = Some tool \<and> check_permissions tool ctx
         \<and> check_rate_limit counters now tool = Inr (True, counters1)
         \<and> tool_validate_parameters tool parameters = Inr True
         \<and> tool_execute tool parameters ctx = Inr result"
  then show "execute_tool registry counters now tool_id parameters ctx = (Inr result, counters1)"
    by (simp add: execute_tool_validated)
next
  assume "registry tool_id = None
         \<or> (\<exists>tool. registry tool_id = Some tool
               \<and> (\<not> check_permissions tool ctx
                    \<or> check_permissions tool ctx
                      \<and> ((\<exists>counters1. check_rate_limit counters now tool = Inr (False, counters1))
                         \<or> (\<exists>counters1. check_rate_limit counters now tool = Inr (True, counters1)
                               \<and> tool_validate_parameters tool parameters = Inr False))))"
  then show "\<exists>result. fst (execute_tool registry counters now tool_id parameters ctx) = Inr result
            \<and> (ter_status result = TOOL_FAILED \<or> ter_status result = TOOL_UNAUTHORIZED)
            \<and> ter_error result \<noteq> None"
    by (elim disjE exE conjE)
       (simp_all add: execute_tool_not_found execute_tool_unauthorized
          execute_tool_rate_limited execute_tool_validated refusal_def)
next
  fix tool counters1 e
  assume "registry tool_id = Some tool \<and> check_permissions tool ctx
         \<and> check_rate_limit counters now tool = Inr (True, counters1)
         \<and> tool_validate_parameters tool parameters = Inl e"
  then show "execute_tool registry counters now tool_id parameters ctx = (Inl e, counters1)"
    by (simp add: execute_tool_validated)
next
  fix tool e
  assume "registry tool_id = Some tool \<and> check_permissions tool ctx
         \<and> check_rate_limit counters now tool = Inl e"
  then show "execute_tool registry counters now tool_id parameters ctx = (Inl e, counters)"
    by (simp add: execute_tool_rate_fault)
qed

lemma IndexingTool_checks:
  "check_permissions IndexingTool ctx"
  "check_rate_limit counters now IndexingTool = Inr (True, counters)"
  by (simp_all add: IndexingTool_def check_permissions_def check_rate_limit_def)

theorem execute_tool_fault_containment_witness:
  "execute_tool [''indexing_tool'' \<mapsto> IndexingTool] Map.empty 63900000000000000
     ''indexing_tool'' [''query'' \<mapsto> ''x''] Map.empty
     = (Inr (refusal ''indexing_tool'' Map.empty TOOL_FAILED ''not implemented''
               63900000000000000), Map.empty)
   \<and> execute_tool [''mock_tool'' \<mapsto> MockTool False (Some 1) 100000000000] Map.empty
       63900000000000000 ''mock_tool'' [''value'' \<mapsto> ''v''] Map.empty
     = (Inl (PyException ''date value out of range''), Map.empty)"
proof -
  let ?wide = "MockTool False (Some 1) 100000000000"
  have "tool_validate_parameters IndexingTool [''query'' \<mapsto> ''x''] = Inr True"
    and "tool_execute IndexingTool [''query'' \<mapsto> ''x''] Map.empty
           = Inl (PyException ''not implemented'')"
    by (simp_all add: IndexingTool_def)
  with execute_tool_fault_containment
         [of "[''indexing_tool'' \<mapsto> IndexingTool]" "''indexing_tool''" Map.empty Map.empty
             63900000000000000 "[''query'' \<mapsto> ''x'']"]
  have 1: "execute_tool [''indexing_tool'' \<mapsto> IndexingTool] Map.empty 63900000000000000
     ''indexing_tool'' [''query'' \<mapsto> ''x''] Map.empty
     = (Inr (refusal ''indexing_tool'' Map.empty TOOL_FAILED ''not implemented''
               63900000000000000), Map.empty)"
    by (simp add: IndexingTool_checks)
  have "check_permissions ?wide Map.empty"
    and "check_rate_limit Map.empty 63900000000000000 ?wide
           = Inl (PyException ''date value out of range'')"
    by (simp_all add: MockTool_def check_permissions_def check_rate_limit_def rate_cutoff_def
          timedelta_seconds_def datetime_sub_def)
  with execute_tool_fault_containment
         [of "[''mock_tool'' \<mapsto> ?wide]" "''mock_tool''" Map.empty Map.empty
             63900000000000000 "[''value'' \<mapsto> ''v'']"]
  have 2: "execute_tool [''mock_tool'' \<mapsto> ?wide] Map.empty
       63900000000000000 ''mock_tool'' [''value'' \<mapsto> ''v''] Map.empty
     = (Inl (PyException ''date value out of range''), Map.empty)"
    by simp
  from 1 2 show ?thesis by (intro conjI)
qed

text \<open>
  Claim C1 as stated fails where the validator raises: for a tool whose
  \<^verbatim>\<open>validate_parameters\<close> reads \<^verbatim>\<open>parameters["query"]\<close>, a call with empty parameters ends
  in the KeyError, not in a result.
\<close>

theorem execute_tool_propagates_validator_fault:
  "fst (execute_tool [''indexing_tool'' \<mapsto> IndexingTool] Map.empty 63900000000000000
          ''indexing_tool'' Map.empty [''call_id'' \<mapsto> ''call-1''])
     = Inl (PyException (CHR 0x27 # ''query'' @ [CHR 0x27]))"
  by (simp add: execute_tool_def registry_get_def IndexingTool_checks)
     (simp add: IndexingTool_def)

text \<open>
  Claim C2. The checks of \<^verbatim>\<open>execute_tool\<close> run in the order existence, authorization, rate
  limit, parameter validation, dispatch, and the first that fails decides the outcome: an
  unknown tool is FAILED "Tool not found"; a known tool without permission is
  UNAUTHORIZED and the rate window is not touched; with permission, a rate-limit check
  that raises ends the call and one that denies is FAILED "Rate limit exceeded"; past
  that, invalid parameters are FAILED "Invalid parameters"; past that, the result is the
  tool's own, or FAILED with the description of the fault it raised. In particular a
  tool that requires auth, called with no \<^verbatim>\<open>user_id\<close> in the context, yields UNAUTHORIZED
  whatever the rate window holds.
\<close>

theorem execute_tool_check_order:
  "(registry tool_id = None \<longrightarrow>
      execute_tool registry counters now tool_id parameters ctx =
        (Inr (refusal tool_id ctx TOOL_FAILED (''Tool not found: '' @ tool_id) now), counters))
   \<and> (\<forall>tool. registry tool_id = Some tool \<longrightarrow>
        (\<not> check_permissions tool ctx \<longrightarrow>
           execute_tool registry counters now tool_id parameters ctx =
             (Inr (refusal tool_id ctx TOOL_UNAUTHORIZED
                     ''Permission denied for tool execution'' now), counters))
      \<and> (\<forall>e. check_permissions tool ctx \<and> check_rate_limit counters now tool = Inl e \<longrightarrow>
           execute_tool registry counters now tool_id parameters ctx = (Inl e, counters))
      \<and> (\<forall>counters1. check_permissions tool ctx
           \<and> check_rate_limit counters now tool = Inr (False, counters1) \<longrightarrow>
           execute_tool registry counters now tool_id parameters ctx =
             (Inr (refusal tool_id ctx TOOL_FAILED ''Rate limit exceeded'' now), counters1))
      \<and> (\<forall>counters1. check_permissions tool ctx
           \<and> check_rate_limit counters now tool = Inr (True, counters1)
           \<and> tool_validate_parameters tool parameters = Inr False \<longrightarrow>
           execute_tool registry counters now tool_id parameters ctx =
             (Inr (refusal tool_id ctx TOOL_FAILED ''Invalid parameters'' now), counters1))
      \<and> (\<forall>counters1. check_permissions tool ctx
           \<and> check_rate_limit counters now tool = Inr (True, counters1)
           \<and> tool_validate_parameters tool parameters = Inr True \<longrightarrow>
           execute_tool registry counters now tool_id parameters ctx =
             (case tool_execute tool parameters ctx of
                Inr result \<Rightarrow> Inr result
              | Inl (PyException msg) \<Rightarrow> Inr (refusal tool_id ctx TOOL_FAILED msg now),
              counters1))
      \<and> (td_requires_auth (tool_definition tool) \<and> ctx ''user_id'' = None \<longrightarrow>
           (\<exists>result. execute_tool registry counters now tool_id parameters ctx
                        = (Inr result, counters)
              \<and> ter_status result = TOOL_UNAUTHORIZED)))"
proof (intro conjI allI impI)
  fix tool
  assume "registry tool_id = Some tool"
     and "td_requires_auth (tool_definition tool) \<and> ctx ''user_id'' = None"
  then show "\<exists>result. execute_tool registry counters now tool_id parameters ctx
                        = (Inr result, counters)
              \<and> ter_status result = TOOL_UNAUTHORIZED"
    by (simp add: execute_tool_unauthorized no_user_id_no_permission refusal_def)
qed (simp_all add: execute_tool_not_found execute_tool_unauthorized execute_tool_rate_fault
       execute_tool_rate_limited execute_tool_validated)

theorem execute_tool_check_order_witness:
  "check_rate_limit [''mock_tool'' \<mapsto> [63900000000000000]] 63900000001000000
       (MockTool True (Some 1) 60)
     = Inr (False, [''mock_tool'' \<mapsto> [63900000000000000]])
   \<and> (\<exists>result.
        execute_tool [''mock_tool'' \<mapsto> MockTool True (Some 1) 60]
          [''mock_tool'' \<mapsto> [63900000000000000]]
          63900000001000000 ''mock_tool'' [''value'' \<mapsto> ''v''] [''call_id'' \<mapsto> ''call-1'']
          = (Inr result, [''mock_tool'' \<mapsto> [63900000000000000]])
        \<and> ter_status result = TOOL_UNAUTHORIZED)"
proof -
  let ?tool = "MockTool True (Some 1) 60"
  have auth: "td_requires_auth (tool_definition ?tool)"
    by (simp add: MockTool_def)
  have exhausted: "check_rate_limit [''mock_tool'' \<mapsto> [63900000000000000]] 63900000001000000
                     ?tool = Inr (False, [''mock_tool'' \<mapsto> [63900000000000000]])"
    by (simp add: check_rate_limit_def rate_cutoff_def timedelta_seconds_def datetime_sub_def
          datetime_max_def MockTool_def counters_get_def Let_def)
  from execute_tool_check_order
         [of "[''mock_tool'' \<mapsto> ?tool]" "''mock_tool''"
             "[''mock_tool'' \<mapsto> [63900000000000000]]" 63900000001000000
             "[''value'' \<mapsto> ''v'']" "[''call_id'' \<mapsto> ''call-1'']"] auth
  have "\<exists>result.
        execute_tool [''mock_tool'' \<mapsto> ?tool] [''mock_tool'' \<mapsto> [63900000000000000]]
          63900000001000000 ''mock_tool'' [''value'' \<mapsto> ''v''] [''call_id'' \<mapsto> ''call-1'']
          = (Inr result, [''mock_tool'' \<mapsto> [63900000000000000]])
        \<and> ter_status result = TOOL_UNAUTHORIZED"
    by simp
  with exhausted show ?thesis by blast
qed

section \<open>Steps of the runtime\<close>

lemma tool_call_context_dom:
  "dom (tool_call_context job tool_call) = {''call_id'', ''job_id'', ''agent_id'', ''chat_id''}"
  by (auto simp add: tool_call_context_def)

lemma tool_call_context_no_user_id:
  "tool_call_context job tool_call ''user_id'' = None"
  by (simp add: tool_call_context_def)

lemma handle_tool_calls_all_unauthorized:
  "(\<And>tc. tc \<in> set tool_calls \<Longrightarrow>
      \<exists>tool. registry (tc_name tc) = Some tool \<and> td_requires_auth (tool_definition tool)) \<Longrightarrow>
   handle_tool_calls registry counters now job tool_calls =
     (Inr (map (\<lambda>tc. refusal (tc_name tc) (tool_call_context job tc) TOOL_UNAUTHORIZED
                       ''Permission denied for tool execution'' now) tool_calls), counters)"
proof (induction tool_calls)
  case Nil
  show ?case by simp
next
  case (Cons tc tcs)
  from Cons.prems [of tc] obtain tool
    where "registry (tc_name tc) = Some tool" "td_requires_auth (tool_definition tool)"
    by auto
  then have "execute_tool registry counters now (tc_name tc) (tc_parameters tc)
               (tool_call_context job tc) =
             (Inr (refusal (tc_name tc) (tool_call_context job tc) TOOL_UNAUTHORIZED
                     ''Permission denied for tool execution'' now), counters)"
    by (simp add: execute_tool_unauthorized no_user_id_no_permission
          tool_call_context_no_user_id)
  moreover have "handle_tool_calls registry counters now job tcs =
     (Inr (map (\<lambda>tc. refusal (tc_name tc) (tool_call_context job tc) TOOL_UNAUTHORIZED
                       ''Permission denied for tool execution'' now) tcs), counters)"
    using Cons.prems by (intro Cons.IH) simp
  ultimately show ?case by simp
qed

lemma execute_job_resume_completes:
  assumes "(case resp_tool_calls response of
              None \<Rightarrow> (Inr [], rt_rate_limit_counters rt)
            | Some tool_calls \<Rightarrow>
                if tool_calls = [] then (Inr [], rt_rate_limit_counters rt)
                else handle_tool_calls (rt_tool_registry rt) (rt_rate_limit_counters rt)
                       now (rt_jobs rt ref) tool_calls) = (Inr tool_results, counters1)"
  shows "execute_job_resume rt ref agent (Inr response) now =
           (process_response agent (rt_jobs rt ref) response now,
            rt\<lparr>rt_rate_limit_counters := counters1,
               rt_jobs := (rt_jobs rt)
                 (ref := (rt_jobs rt ref)\<lparr>job_status := COMPLETED, job_completed_at := Some now\<rparr>),
               rt_active_jobs := (rt_active_jobs rt)(job_id (rt_jobs rt ref) := None)\<rparr>)"
  using assms by (simp add: execute_job_resume_def Let_def)

lemma execute_job_resume_fails_backend:
  "execute_job_resume rt ref agent (Inl (PyException msg)) now =
     (failed_result (rt_jobs rt ref) msg,
      rt\<lparr>rt_jobs := (rt_jobs rt)
            (ref := (rt_jobs rt ref)\<lparr>job_status := FAILED, job_completed_at := Some now\<rparr>),
         rt_active_jobs := (rt_active_jobs rt)(job_id (rt_jobs rt ref) := None)\<rparr>)"
  by (simp add: execute_job_resume_def job_failed_def Let_def failed_result_def)

lemma execute_job_resume_fails_tool:
  assumes "(case resp_tool_calls response of
              None \<Rightarrow> (Inr [], rt_rate_limit_counters rt)
            | Some tool_calls \<Rightarrow>
                if tool_calls = [] then (Inr [], rt_rate_limit_counters rt)
                else handle_tool_calls (rt_tool_registry rt) (rt_rate_limit_counters rt)
                       now (rt_jobs rt ref) tool_calls) = (Inl (PyException msg), counters1)"
  shows "execute_job_resume rt ref agent (Inr response) now =
           (failed_result (rt_jobs rt ref) msg,
            rt\<lparr>rt_rate_limit_counters := counters1,
               rt_jobs := (rt_jobs rt)
                 (ref := (rt_jobs rt ref)\<lparr>job_status := FAILED, job_completed_at := Some now\<rparr>),
               rt_active_jobs := (rt_active_jobs rt)(job_id (rt_jobs rt ref) := None)\<rparr>)"
  using assms by (simp add: execute_job_resume_def job_failed_def Let_def failed_result_def)

text \<open>Whatever the backend answers, the continuation ends in one of three shapes.\<close>

lemma execute_job_resume_shape:
  "\<exists>result counters1 st.
     st \<in> {COMPLETED, FAILED} \<and> res_status result = st \<and>
     execute_job_resume rt ref agent outcome now =
       (result,
        rt\<lparr>rt_rate_limit_counters := counters1,
           rt_jobs := (rt_jobs rt)
             (ref := (rt_jobs rt ref)\<lparr>job_status := st, job_completed_at := Some now\<rparr>),
           rt_active_jobs := (rt_active_jobs rt)(job_id (rt_jobs rt ref) := None)\<rparr>)"
proof (cases outcome)
  case (Inl e)
  obtain msg where "e = PyException msg" by (cases e)
  with Inl have "execute_job_resume rt ref agent outcome now =
     (failed_result (rt_jobs rt ref) msg,
      rt\<lparr>rt_rate_limit_counters := rt_rate_limit_counters rt,
         rt_jobs := (rt_jobs rt)
            (ref := (rt_jobs rt ref)\<lparr>job_status := FAILED, job_completed_at := Some now\<rparr>),
         rt_active_jobs := (rt_active_jobs rt)(job_id (rt_jobs rt ref) := None)\<rparr>)"
    by (simp add: execute_job_resume_fails_backend)
  moreover have "res_status (failed_result (rt_jobs rt ref) msg) = FAILED"
    by (simp add: failed_result_def)
  ultimately show ?thesis by blast
next
  case (Inr response)
  let ?h = "(case resp_tool_calls response of
              None \<Rightarrow> (Inr [], rt_rate_limit_counters rt)
            | Some tool_calls \<Rightarrow>
                if tool_calls = [] then (Inr [], rt_rate_limit_counters rt)
                else handle_tool_calls (rt_tool_registry rt) (rt_rate_limit_counters rt)
                       now (rt_jobs rt ref) tool_calls)"
  obtain r counters1 where h: "?h = (r, counters1)" by (cases ?h)
  show ?thesis
  proof (cases r)
    case (Inl e)
    obtain msg where "e = PyException msg" by (cases e)
    with h Inl have "?h = (Inl (PyException msg), counters1)" by simp
    from execute_job_resume_fails_tool [OF this, of agent] Inr
    have "execute_job_resume rt ref agent outcome now =
           (failed_result (rt_jobs rt ref) msg,
            rt\<lparr>rt_rate_limit_counters := counters1,
               rt_jobs := (rt_jobs rt)
                 (ref := (rt_jobs rt ref)\<lparr>job_status := FAILED, job_completed_at := Some now\<rparr>),
               rt_active_jobs := (rt_active_jobs rt)(job_id (rt_jobs rt ref) := None)\<rparr>)"
      by simp
    moreover have "res_status (failed_result (rt_jobs rt ref) msg) = FAILED"
      by (simp add: failed_result_def)
    ultimately show ?thesis by blast
  next
    case (Inr tool_results)
    with h have "?h = (Inr tool_results, counters1)" by simp
    from execute_job_resume_completes [OF this, of agent] \<open>outcome = Inr response\<close>
    have "execute_job_resume rt ref agent outcome now =
           (process_response agent (rt_jobs rt ref) response now,
            rt\<lparr>rt_rate_limit_counters := counters1,
               rt_jobs := (rt_jobs rt)
                 (ref := (rt_jobs rt ref)\<lparr>job_status := COMPLETED, job_completed_at := Some now\<rparr>),
               rt_active_jobs := (rt_active_jobs rt)(job_id (rt_jobs rt ref) := None)\<rparr>)"
      by simp
    moreover have "res_status (process_response agent (rt_jobs rt ref) response now) = COMPLETED"
      by (simp add: process_response_def)
    ultimately show ?thesis by blast
  qed
qed

lemma execute_job_start_not_found:
  "get_agent rt (job_agent_id (rt_jobs rt ref)) = None \<Longrightarrow>
   execute_job_start rt ref now =
     (AgentNotFound (failed_result (rt_jobs rt ref)
        (''Agent not found: '' @ job_agent_id (rt_jobs rt ref))), rt)"
  by (simp add: execute_job_start_def Let_def)

lemma execute_job_start_found:
  "get_agent rt (job_agent_id (rt_jobs rt ref)) = Some agent \<Longrightarrow>
   \<exists>messages tools.
     execute_job_start rt ref now =
       (AwaitBackend agent messages tools,
        rt\<lparr>rt_active_jobs := (rt_active_jobs rt)(job_id (rt_jobs rt ref) \<mapsto> ref),
           rt_jobs := (rt_jobs rt)
             (ref := (rt_jobs rt ref)\<lparr>job_status := RUNNING, job_started_at := Some now\<rparr>)\<rparr>)"
  by (simp add: execute_job_start_def Let_def)

section \<open>Jobs and the ledger\<close>

text \<open>
  Claim C3. When the job's agent id does not resolve in the agent registry,
  \<^verbatim>\<open>execute_job\<close> returns a FAILED result whose error is "Agent not found: " followed
  by the agent id, and the runtime is left as it was: the job never enters the ledger.
\<close>

theorem execute_job_agent_not_found:
  "get_agent rt (job_agent_id (rt_jobs rt ref)) = None \<longrightarrow>
     res_status (fst (execute_job llm rt ref t0 t1)) = FAILED
     \<and> res_error (fst (execute_job llm rt ref t0 t1)) =
         Some (''Agent not found: '' @ job_agent_id (rt_jobs rt ref))
     \<and> (\<exists>before after. res_error (fst (execute_job llm rt ref t0 t1)) =
           Some (before @ job_agent_id (rt_jobs rt ref) @ after))
     \<and> snd (execute_job llm rt ref t0 t1) = rt
     \<and> rt_active_jobs (snd (execute_job llm rt ref t0 t1)) = rt_active_jobs rt"
proof
  assume nf: "get_agent rt (job_agent_id (rt_jobs rt ref)) = None"
  have run: "execute_job llm rt ref t0 t1 =
     (failed_result (rt_jobs rt ref) (''Agent not found: '' @ job_agent_id (rt_jobs rt ref)), rt)"
    by (simp add: execute_job_def execute_job_start_not_found [OF nf])
  have err: "res_error (fst (execute_job llm rt ref t0 t1)) =
         Some (''Agent not found: '' @ job_agent_id (rt_jobs rt ref))"
    by (simp add: run failed_result_def)
  have "res_error (fst (execute_job llm rt ref t0 t1)) =
         Some (''Agent not found: '' @ job_agent_id (rt_jobs rt ref) @ [])"
    using err by simp
  then have "\<exists>before after. res_error (fst (execute_job llm rt ref t0 t1)) =
           Some (before @ job_agent_id (rt_jobs rt ref) @ after)"
    by blast
  moreover have "res_status (fst (execute_job llm rt ref t0 t1)) = FAILED"
    by (simp add: run failed_result_def)
  ultimately show "res_status (fst (execute_job llm rt ref t0 t1)) = FAILED
     \<and> res_error (fst (execute_job llm rt ref t0 t1)) =
         Some (''Agent not found: '' @ job_agent_id (rt_jobs rt ref))
     \<and> (\<exists>before after. res_error (fst (execute_job llm rt ref t0 t1)) =
           Some (before @ job_agent_id (rt_jobs rt ref) @ after))
     \<and> snd (execute_job llm rt ref t0 t1) = rt
     \<and> rt_active_jobs (snd (execute_job llm rt ref t0 t1)) = rt_active_jobs rt"
    using err by (simp add: run)
qed

theorem execute_job_agent_not_found_witness:
  "res_status (fst (execute_job (text_backend ''hi'')
      (demo_runtime Map.empty (demo_job ''test-job'' ''nonexistent'' 30)) 0 0 1)) = FAILED
   \<and> res_error (fst (execute_job (text_backend ''hi'')
      (demo_runtime Map.empty (demo_job ''test-job'' ''nonexistent'' 30)) 0 0 1))
       = Some ''Agent not found: nonexistent''
   \<and> rt_active_jobs (snd (execute_job (text_backend ''hi'')
      (demo_runtime Map.empty (demo_job ''test-job'' ''nonexistent'' 30)) 0 0 1)) ''test-job''
       = None"
proof -
  let ?rt = "demo_runtime Map.empty (demo_job ''test-job'' ''nonexistent'' 30)"
  have job: "rt_jobs ?rt 0 = demo_job ''test-job'' ''nonexistent'' 30"
    by (simp add: demo_runtime_def)
  have "get_agent ?rt (job_agent_id (rt_jobs ?rt 0)) = None"
    by (simp add: job) (simp add: get_agent_def demo_runtime_def demo_job_def)
  with execute_job_agent_not_found [of ?rt 0 "text_backend ''hi''" 0 1]
  have "res_status (fst (execute_job (text_backend ''hi'') ?rt 0 0 1)) = FAILED"
    and "res_error (fst (execute_job (text_backend ''hi'') ?rt 0 0 1)) =
         Some (''Agent not found: '' @ job_agent_id (rt_jobs ?rt 0))"
    and "rt_active_jobs (snd (execute_job (text_backend ''hi'') ?rt 0 0 1)) = rt_active_jobs ?rt"
    by blast+
  moreover have "job_agent_id (rt_jobs ?rt 0) = ''nonexistent''"
    by (simp add: job) (simp add: demo_job_def)
  moreover have "rt_active_jobs ?rt ''test-job'' = None"
    by (simp add: demo_runtime_def)
  ultimately show ?thesis by simp
qed

lemma cancel_job_absent:
  "rt_active_jobs rt jid = None \<Longrightarrow> cancel_job rt jid now = (False, rt)"
  by (simp add: cancel_job_def)

lemma cancel_job_not_running:
  "rt_active_jobs rt jid = Some ref \<Longrightarrow> job_status (rt_jobs rt ref) \<noteq> RUNNING \<Longrightarrow>
   cancel_job rt jid now = (False, rt)"
  by (simp add: cancel_job_def)

lemma cancel_job_running:
  "rt_active_jobs rt jid = Some ref \<Longrightarrow> job_status (rt_jobs rt ref) = RUNNING \<Longrightarrow>
   cancel_job rt jid now =
     (True, rt\<lparr>rt_jobs := (rt_jobs rt)
                 (ref := (rt_jobs rt ref)\<lparr>job_status := CANCELLED, job_completed_at := Some now\<rparr>),
              rt_active_jobs := (rt_active_jobs rt)(jid := None)\<rparr>)"
  by (simp add: cancel_job_def Let_def)

lemma start_effect:
  "job_id (rt_jobs (snd (execute_job_start rt ref now)) r) = job_id (rt_jobs rt r)"
  "job_id (rt_jobs rt ref) \<noteq> jid \<Longrightarrow>
     rt_active_jobs (snd (execute_job_start rt ref now)) jid = rt_active_jobs rt jid"
  by (simp_all add: execute_job_start_def Let_def split: option.splits)

lemma resume_effect:
  "job_id (rt_jobs (snd (execute_job_resume rt ref agent outcome now)) r) = job_id (rt_jobs rt r)"
  "rt_active_jobs rt jid = None \<Longrightarrow>
     rt_active_jobs (snd (execute_job_resume rt ref agent outcome now)) jid = None"
proof -
  from execute_job_resume_shape [of rt ref agent outcome now]
  obtain result counters1 st where run:
    "execute_job_resume rt ref agent outcome now =
       (result,
        rt\<lparr>rt_rate_limit_counters := counters1,
           rt_jobs := (rt_jobs rt)
             (ref := (rt_jobs rt ref)\<lparr>job_status := st, job_completed_at := Some now\<rparr>),
           rt_active_jobs := (rt_active_jobs rt)(job_id (rt_jobs rt ref) := None)\<rparr>)"
    by blast
  show "job_id (rt_jobs (snd (execute_job_resume rt ref agent outcome now)) r)
          = job_id (rt_jobs rt r)"
    unfolding run by simp
  show "rt_active_jobs rt jid = None \<Longrightarrow>
     rt_active_jobs (snd (execute_job_resume rt ref agent outcome now)) jid = None"
    unfolding run by simp
qed

lemma cancel_effect:
  "job_id (rt_jobs (snd (cancel_job rt jid' now)) r) = job_id (rt_jobs rt r)"
  "rt_active_jobs rt jid = None \<Longrightarrow> rt_active_jobs (snd (cancel_job rt jid' now)) jid = None"
  "fst (cancel_job rt jid now) \<Longrightarrow> rt_active_jobs (snd (cancel_job rt jid now)) jid = None"
  by (auto simp add: cancel_job_def Let_def split: option.splits if_splits)

lemma starts_job_id_cong:
  "(\<And>r. job_id (rt_jobs rt' r) = job_id (rt_jobs rt r)) \<Longrightarrow>
   starts_job_id rt' jid op = starts_job_id rt jid op"
  by (cases op) simp_all

lemma run_ops_absent:
  "rt_active_jobs rt jid = None \<Longrightarrow> \<forall>op \<in> set ops. \<not> starts_job_id rt jid op \<Longrightarrow>
   (jid, True) \<notin> set (run_ops rt ops)"
proof (induction ops arbitrary: rt)
  case Nil
  show ?case by simp
next
  case (Cons op ops)
  show ?case
  proof (cases op)
    case (StartJob ref now)
    let ?rt' = "snd (execute_job_start rt ref now)"
    from Cons.prems StartJob have ne: "job_id (rt_jobs rt ref) \<noteq> jid" by simp
    have "rt_active_jobs ?rt' jid = None"
      using Cons.prems(1) by (simp add: start_effect(2) [OF ne])
    moreover have "\<forall>op \<in> set ops. \<not> starts_job_id ?rt' jid op"
      using Cons.prems(2) by (simp add: starts_job_id_cong [OF start_effect(1)])
    ultimately show ?thesis using StartJob Cons.IH by simp
  next
    case (ResumeJob ref agent outcome now)
    let ?rt' = "snd (execute_job_resume rt ref agent outcome now)"
    have "rt_active_jobs ?rt' jid = None"
      using Cons.prems(1) by (rule resume_effect(2))
    moreover have "\<forall>op \<in> set ops. \<not> starts_job_id ?rt' jid op"
      using Cons.prems(2) by (simp add: starts_job_id_cong [OF resume_effect(1)])
    ultimately show ?thesis using ResumeJob Cons.IH by simp
  next
    case (CancelJob jid' now)
    let ?rt' = "snd (cancel_job rt jid' now)"
    have absent: "rt_active_jobs ?rt' jid = None"
      using Cons.prems(1) by (rule cancel_effect(2))
    have rest: "\<forall>op \<in> set ops. \<not> starts_job_id ?rt' jid op"
      using Cons.prems(2) by (simp add: starts_job_id_cong [OF cancel_effect(1)])
    have "jid' = jid \<Longrightarrow> \<not> fst (cancel_job rt jid' now)"
      using Cons.prems(1) by (simp add: cancel_job_absent)
    with CancelJob Cons.IH [OF absent rest] show ?thesis
      by (auto simp add: split_beta)
  qed
qed

lemma run_ops_cancelled_once:
  "\<forall>op \<in> set ops. \<not> starts_job_id rt jid op \<Longrightarrow>
   length (filter (\<lambda>answer. answer = (jid, True)) (run_ops rt ops)) \<le> 1"
proof (induction ops arbitrary: rt)
  case Nil
  show ?case by simp
next
  case (Cons op ops)
  show ?case
  proof (cases op)
    case (StartJob ref now)
    let ?rt' = "snd (execute_job_start rt ref now)"
    have "\<forall>op \<in> set ops. \<not> starts_job_id ?rt' jid op"
      using Cons.prems by (simp add: starts_job_id_cong [OF start_effect(1)])
    with StartJob Cons.IH show ?thesis by simp
  next
    case (ResumeJob ref agent outcome now)
    let ?rt' = "snd (execute_job_resume rt ref agent outcome now)"
    have "\<forall>op \<in> set ops. \<not> starts_job_id ?rt' jid op"
      using Cons.prems by (simp add: starts_job_id_cong [OF resume_effect(1)])
    with ResumeJob Cons.IH show ?thesis by simp
  next
    case (CancelJob jid' now)
    let ?rt' = "snd (cancel_job rt jid' now)"
    have rest: "\<forall>op \<in> set ops. \<not> starts_job_id ?rt' jid op"
      using Cons.prems by (simp add: starts_job_id_cong [OF cancel_effect(1)])
    show ?thesis
    proof (cases "jid' = jid \<and> fst (cancel_job rt jid' now)")
      case True
      then have "rt_active_jobs ?rt' jid = None"
        by (auto intro: cancel_effect(3))
      from run_ops_absent [OF this rest]
      have "filter (\<lambda>answer. answer = (jid, True)) (run_ops ?rt' ops) = []"
        by (auto simp add: filter_empty_conv)
      with CancelJob True show ?thesis by (simp add: split_beta)
    next
      case False
      with CancelJob Cons.IH [OF rest] show ?thesis
        by (auto simp add: split_beta)
    qed
  qed
qed

lemma resume_untracks:
  "rt_active_jobs (snd (execute_job_resume rt ref agent outcome now)) (job_id (rt_jobs rt ref))
     = None"
proof -
  from execute_job_resume_shape [of rt ref agent outcome now]
  obtain result counters1 st where
    "execute_job_resume rt ref agent outcome now =
       (result,
        rt\<lparr>rt_rate_limit_counters := counters1,
           rt_jobs := (rt_jobs rt)
             (ref := (rt_jobs rt ref)\<lparr>job_status := st, job_completed_at := Some now\<rparr>),
           rt_active_jobs := (rt_active_jobs rt)(job_id (rt_jobs rt ref) := None)\<rparr>)"
    by blast
  then show ?thesis by simp
qed

text \<open>
  Claim C4, as amended. \<^verbatim>\<open>cancel_job\<close> answers true exactly when the ledger holds an entry
  for the job id whose job is RUNNING; it then sets the job's status to CANCELLED, stamps
  \<^verbatim>\<open>completed_at\<close> and removes the entry, and otherwise it changes nothing. As long as no
  job is submitted again under the id: every \<^verbatim>\<open>cancel_job\<close> for it after a successful one
  answers false, every one after \<^verbatim>\<open>execute_job\<close> has finished answers false, and over any
  schedule of starts, continuations and cancellations at most one answers true.
\<close>

theorem cancel_job_running_only:
  "fst (cancel_job rt jid now) =
     (\<exists>ref. rt_active_jobs rt jid = Some ref \<and> job_status (rt_jobs rt ref) = RUNNING)
   \<and> (\<forall>ref. rt_active_jobs rt jid = Some ref \<and> job_status (rt_jobs rt ref) = RUNNING \<longrightarrow>
         snd (cancel_job rt jid now) =
           rt\<lparr>rt_jobs := (rt_jobs rt)
                (ref := (rt_jobs rt ref)\<lparr>job_status := CANCELLED, job_completed_at := Some now\<rparr>),
              rt_active_jobs := (rt_active_jobs rt)(jid := None)\<rparr>)
   \<and> (\<not> fst (cancel_job rt jid now) \<longrightarrow> snd (cancel_job rt jid now) = rt)
   \<and> (fst (cancel_job rt jid now) \<longrightarrow>
         \<not> fst (cancel_job (snd (cancel_job rt jid now)) jid later))
   \<and> (fst (cancel_job rt jid now) \<and> (\<forall>op \<in> set ops. \<not> starts_job_id rt jid op) \<longrightarrow>
         (jid, True) \<notin> set (run_ops (snd (cancel_job rt jid now)) ops))
   \<and> ((\<forall>op \<in> set ops. \<not> starts_job_id rt jid op) \<longrightarrow>
         length (filter (\<lambda>answer. answer = (jid, True)) (run_ops rt ops)) \<le> 1)
   \<and> \<not> fst (cancel_job (snd (execute_job_resume rt ref0 agent outcome now))
              (job_id (rt_jobs rt ref0)) later)
   \<and> ((\<forall>op \<in> set ops. \<not> starts_job_id rt (job_id (rt_jobs rt ref0)) op) \<longrightarrow>
         (job_id (rt_jobs rt ref0), True)
           \<notin> set (run_ops (snd (execute_job_resume rt ref0 agent outcome now)) ops))"
proof (intro conjI allI impI)
  show "fst (cancel_job rt jid now) =
     (\<exists>ref. rt_active_jobs rt jid = Some ref \<and> job_status (rt_jobs rt ref) = RUNNING)"
    by (auto simp add: cancel_job_def Let_def split: option.splits)
next
  fix ref
  assume "rt_active_jobs rt jid = Some ref \<and> job_status (rt_jobs rt ref) = RUNNING"
  then show "snd (cancel_job rt jid now) =
           rt\<lparr>rt_jobs := (rt_jobs rt)
                (ref := (rt_jobs rt ref)\<lparr>job_status := CANCELLED, job_completed_at := Some now\<rparr>),
              rt_active_jobs := (rt_active_jobs rt)(jid := None)\<rparr>"
    by (simp add: cancel_job_running)
next
  assume "\<not> fst (cancel_job rt jid now)"
  then show "snd (cancel_job rt jid now) = rt"
    by (simp add: cancel_job_def Let_def split: option.splits if_splits)
next
  assume "fst (cancel_job rt jid now)"
  then have "rt_active_jobs (snd (cancel_job rt jid now)) jid = None"
    by (rule cancel_effect(3))
  then show "\<not> fst (cancel_job (snd (cancel_job rt jid now)) jid later)"
    by (simp add: cancel_job_absent)
next
  assume a: "fst (cancel_job rt jid now) \<and> (\<forall>op \<in> set ops. \<not> starts_job_id rt jid op)"
  then have absent: "rt_active_jobs (snd (cancel_job rt jid now)) jid = None"
    by (simp add: cancel_effect(3))
  from a have "\<forall>op \<in> set ops. \<not> starts_job_id (snd (cancel_job rt jid now)) jid op"
    by (simp add: starts_job_id_cong [OF cancel_effect(1)])
  with absent show "(jid, True) \<notin> set (run_ops (snd (cancel_job rt jid now)) ops)"
    by (rule run_ops_absent)
next
  assume "\<forall>op \<in> set ops. \<not> starts_job_id rt jid op"
  then show "length (filter (\<lambda>answer. answer = (jid, True)) (run_ops rt ops)) \<le> 1"
    by (rule run_ops_cancelled_once)
next
  show "\<not> fst (cancel_job (snd (execute_job_resume rt ref0 agent outcome now))
              (job_id (rt_jobs rt ref0)) later)"
    by (simp add: cancel_job_absent resume_untracks)
next
  assume a: "\<forall>op \<in> set ops. \<not> starts_job_id rt (job_id (rt_jobs rt ref0)) op"
  have absent: "rt_active_jobs (snd (execute_job_resume rt ref0 agent outcome now))
                  (job_id (rt_jobs rt ref0)) = None"
    by (rule resume_untracks)
  from a have "\<forall>op \<in> set ops.
      \<not> starts_job_id (snd (execute_job_resume rt ref0 agent outcome now))
          (job_id (rt_jobs rt ref0)) op"
    by (simp add: starts_job_id_cong [OF resume_effect(1)])
  with absent show "(job_id (rt_jobs rt ref0), True)
           \<notin> set (run_ops (snd (execute_job_resume rt ref0 agent outcome now)) ops)"
    by (rule run_ops_absent)
qed

lemma demo_start:
  "execute_job_start (demo_runtime registry (demo_job jid ''a1'' n)) 0 t0 =
     (AwaitBackend demo_agent
        [\<lparr>msg_role = SYSTEM, msg_content = ''You are a test agent''\<rparr>,
         \<lparr>msg_role = USER, msg_content = ''test''\<rparr>] None,
      (demo_runtime registry (demo_job jid ''a1'' n))
        \<lparr>rt_active_jobs := [jid \<mapsto> 0],
         rt_jobs := (rt_jobs (demo_runtime registry (demo_job jid ''a1'' n)))
           (0 := (demo_job jid ''a1'' n)\<lparr>job_status := RUNNING, job_started_at := Some t0\<rparr>)\<rparr>)"
  by (simp add: execute_job_start_def Let_def get_agent_def demo_runtime_def demo_job_def
        prepare_messages_def demo_agent_def)

theorem cancel_job_running_only_witness:
  "fst (cancel_job (snd (execute_job_start (demo_runtime Map.empty (demo_job ''j1'' ''a1'' 30)) 0 10))
         ''j1'' 20)
   \<and> job_status (rt_jobs (snd (cancel_job
         (snd (execute_job_start (demo_runtime Map.empty (demo_job ''j1'' ''a1'' 30)) 0 10))
         ''j1'' 20)) 0) = CANCELLED
   \<and> job_completed_at (rt_jobs (snd (cancel_job
         (snd (execute_job_start (demo_runtime Map.empty (demo_job ''j1'' ''a1'' 30)) 0 10))
         ''j1'' 20)) 0) = Some 20
   \<and> rt_active_jobs (snd (cancel_job
         (snd (execute_job_start (demo_runtime Map.empty (demo_job ''j1'' ''a1'' 30)) 0 10))
         ''j1'' 20)) ''j1'' = None
   \<and> \<not> fst (cancel_job (snd (cancel_job
         (snd (execute_job_start (demo_runtime Map.empty (demo_job ''j1'' ''a1'' 30)) 0 10))
         ''j1'' 20)) ''j1'' 30)
   \<and> \<not> fst (cancel_job (demo_runtime Map.empty (demo_job ''j1'' ''a1'' 30)) ''j1'' 20)
   \<and> run_ops (snd (execute_job_start (demo_runtime Map.empty (demo_job ''j1'' ''a1'' 30)) 0 10))
         [CancelJob ''j1'' 20, CancelJob ''j1'' 30] = [(''j1'', True), (''j1'', False)]
   \<and> length (filter (\<lambda>answer. answer = (''j1'', True))
        (run_ops (snd (execute_job_start (demo_runtime Map.empty (demo_job ''j1'' ''a1'' 30)) 0 10))
           [CancelJob ''j1'' 20,
            ResumeJob 0 demo_agent (Inr (text_response ''All good'')) 30,
            CancelJob ''j1'' 40, StartJob 2 50, CancelJob ''other'' 60,
            CancelJob ''j1'' 70])) \<le> 1
   \<and> (''j1'', True) \<notin> set (run_ops
        (snd (execute_job_resume
           (snd (execute_job_start (demo_runtime Map.empty (demo_job ''j1'' ''a1'' 30)) 0 10))
           0 demo_agent (Inr (text_response ''All good'')) 30))
        [CancelJob ''j1'' 40, StartJob 2 50, CancelJob ''j1'' 60])"
proof -
  let ?rt0 = "demo_runtime Map.empty (demo_job ''j1'' ''a1'' 30)"
  let ?rt1 = "snd (execute_job_start ?rt0 0 10)"
  let ?ops = "[CancelJob ''j1'' 20,
            ResumeJob 0 demo_agent (Inr (text_response ''All good'')) 30,
            CancelJob ''j1'' 40, StartJob 2 50, CancelJob ''other'' 60,
            CancelJob ''j1'' 70]"
  let ?later = "[CancelJob ''j1'' 40, StartJob 2 50, CancelJob ''j1'' 60]"
  have tracked: "rt_active_jobs ?rt1 ''j1'' = Some 0"
    and running: "job_status (rt_jobs ?rt1 0) = RUNNING"
    and jid: "job_id (rt_jobs ?rt1 0) = ''j1''"
    and other: "job_id (rt_jobs ?rt1 2) = ''other''"
    by (simp_all add: demo_start) (simp_all add: demo_runtime_def demo_job_def)
  have untracked: "\<not> (\<exists>ref. rt_active_jobs ?rt0 ''j1'' = Some ref
                      \<and> job_status (rt_jobs ?rt0 ref) = RUNNING)"
    by (simp add: demo_runtime_def)
  have quiet: "\<forall>op \<in> set ?ops. \<not> starts_job_id ?rt1 ''j1'' op"
    and quiet': "\<forall>op \<in> set ?later. \<not> starts_job_id ?rt1 (job_id (rt_jobs ?rt1 0)) op"
    by (simp_all add: jid other)
  note live = cancel_job_running_only
                [of ?rt1 "''j1''" 20 30 ?ops 0 demo_agent "Inr (text_response ''All good'')"]
  note fin = cancel_job_running_only
                [of ?rt1 "''j1''" 30 40 ?later 0 demo_agent "Inr (text_response ''All good'')"]
  note idle = cancel_job_running_only
                [of ?rt0 "''j1''" 20 30 "[]" 0 demo_agent "Inl (PyException [])"]
  from live tracked running have yes: "fst (cancel_job ?rt1 ''j1'' 20)"
    by blast
  from live tracked running
  have after: "snd (cancel_job ?rt1 ''j1'' 20) =
           ?rt1\<lparr>rt_jobs := (rt_jobs ?rt1)
                (0 := (rt_jobs ?rt1 0)\<lparr>job_status := CANCELLED, job_completed_at := Some 20\<rparr>),
              rt_active_jobs := (rt_active_jobs ?rt1)(''j1'' := None)\<rparr>"
    by blast
  from live yes have again: "\<not> fst (cancel_job (snd (cancel_job ?rt1 ''j1'' 20)) ''j1'' 30)"
    by blast
  from idle untracked have no: "\<not> fst (cancel_job ?rt0 ''j1'' 20)"
    by blast
  from live quiet
  have once: "length (filter (\<lambda>answer. answer = (''j1'', True)) (run_ops ?rt1 ?ops)) \<le> 1"
    by blast
  from fin quiet'
  have "(job_id (rt_jobs ?rt1 0), True) \<notin> set (run_ops
          (snd (execute_job_resume ?rt1 0 demo_agent (Inr (text_response ''All good'')) 30))
          ?later)"
    by blast
  then have finished: "(''j1'', True) \<notin> set (run_ops
          (snd (execute_job_resume ?rt1 0 demo_agent (Inr (text_response ''All good'')) 30))
          ?later)"
    by (simp only: jid not_False_eq_True)
  from yes again
  have trace: "run_ops ?rt1 [CancelJob ''j1'' 20, CancelJob ''j1'' 30]
                 = [(''j1'', True), (''j1'', False)]"
    by (simp add: split_beta)
  have "job_status (rt_jobs (snd (cancel_job ?rt1 ''j1'' 20)) 0) = CANCELLED"
    and "job_completed_at (rt_jobs (snd (cancel_job ?rt1 ''j1'' 20)) 0) = Some 20"
    and "rt_active_jobs (snd (cancel_job ?rt1 ''j1'' 20)) ''j1'' = None"
    unfolding after by simp_all
  with yes again no trace once finished show ?thesis
    by (intro conjI)
qed

text \<open>
  Claim C4 as stated fails when a job id is submitted again: \<^verbatim>\<open>execute_job\<close> tracks whatever
  job it is given and sets it RUNNING, so after a cancelled job is started once more the
  second \<^verbatim>\<open>cancel_job\<close> for its id answers true as well.
\<close>

theorem resubmitted_job_is_cancelled_twice:
  "run_ops (demo_runtime Map.empty (demo_job ''j1'' ''a1'' 30))
     [StartJob 0 10, CancelJob ''j1'' 20, StartJob 0 30, CancelJob ''j1'' 40]
     = [(''j1'', True), (''j1'', True)]"
proof -
  let ?rt0 = "demo_runtime Map.empty (demo_job ''j1'' ''a1'' 30)"
  let ?rt1 = "snd (execute_job_start ?rt0 0 10)"
  let ?rt2 = "snd (cancel_job ?rt1 ''j1'' 20)"
  let ?rt3 = "snd (execute_job_start ?rt2 0 30)"
  have "rt_active_jobs ?rt1 ''j1'' = Some 0" "job_status (rt_jobs ?rt1 0) = RUNNING"
    by (simp_all add: demo_start)
  note first = cancel_job_running [OF this, of 20]
  have agent: "get_agent ?rt2 (job_agent_id (rt_jobs ?rt2 0)) = Some demo_agent"
    unfolding first
    by (simp add: demo_start) (simp add: get_agent_def demo_runtime_def demo_job_def)
  have jid: "job_id (rt_jobs ?rt2 0) = ''j1''"
    unfolding first by (simp add: demo_start) (simp add: demo_job_def)
  from execute_job_start_found [OF agent, of 30] jid
  have "rt_active_jobs ?rt3 ''j1'' = Some 0" "job_status (rt_jobs ?rt3 0) = RUNNING"
    by auto
  note second = cancel_job_running [OF this, of 40]
  have c1: "fst (cancel_job ?rt1 ''j1'' 20)"
    by (simp only: first fst_conv)
  have c2: "fst (cancel_job ?rt3 ''j1'' 40)"
    by (simp only: second fst_conv)
  have "run_ops ?rt0 [StartJob 0 10, CancelJob ''j1'' 20, StartJob 0 30, CancelJob ''j1'' 40]
          = [(''j1'', fst (cancel_job ?rt1 ''j1'' 20)), (''j1'', fst (cancel_job ?rt3 ''j1'' 40))]"
    by (simp only: run_ops.simps split_beta)
  with c1 c2 show ?thesis
    by (simp only: simp_thms)
qed

text \<open>
  Claim C5 does not hold of the code. A job is started at time 10 and suspends at the
  backend call; \<^verbatim>\<open>cancel_job\<close> at time 20 answers true and leaves the job CANCELLED with
  \<^verbatim>\<open>completed_at\<close> 20; when the backend then answers at time 30, the rest of
  \<^verbatim>\<open>execute_job\<close> sets the same job to COMPLETED, stamps \<^verbatim>\<open>completed_at\<close> a second time
  and returns a COMPLETED result. \<^verbatim>\<open>cancel_job\<close> tests for RUNNING before it writes a
  terminal status; the completion path of \<^verbatim>\<open>execute_job\<close> does not.
\<close>

theorem completion_overwrites_cancellation:
  "fst (execute_job_start (demo_runtime Map.empty (demo_job ''j1'' ''a1'' 30)) 0 10) =
     AwaitBackend demo_agent
        [\<lparr>msg_role = SYSTEM, msg_content = ''You are a test agent''\<rparr>,
         \<lparr>msg_role = USER, msg_content = ''test''\<rparr>] None
   \<and> fst (cancel_job
         (snd (execute_job_start (demo_runtime Map.empty (demo_job ''j1'' ''a1'' 30)) 0 10))
         ''j1'' 20)
   \<and> job_status (rt_jobs (snd (cancel_job
         (snd (execute_job_start (demo_runtime Map.empty (demo_job ''j1'' ''a1'' 30)) 0 10))
         ''j1'' 20)) 0) = CANCELLED
   \<and> job_completed_at (rt_jobs (snd (cancel_job
         (snd (execute_job_start (demo_runtime Map.empty (demo_job ''j1'' ''a1'' 30)) 0 10))
         ''j1'' 20)) 0) = Some 20
   \<and> res_status (fst (execute_job_resume (snd (cancel_job
         (snd (execute_job_start (demo_runtime Map.empty (demo_job ''j1'' ''a1'' 30)) 0 10))
         ''j1'' 20)) 0 demo_agent (Inr (text_response ''All good'')) 30)) = COMPLETED
   \<and> job_status (rt_jobs (snd (execute_job_resume (snd (cancel_job
         (snd (execute_job_start (demo_runtime Map.empty (demo_job ''j1'' ''a1'' 30)) 0 10))
         ''j1'' 20)) 0 demo_agent (Inr (text_response ''All good'')) 30)) 0) = COMPLETED
   \<and> job_completed_at (rt_jobs (snd (execute_job_resume (snd (cancel_job
         (snd (execute_job_start (demo_runtime Map.empty (demo_job ''j1'' ''a1'' 30)) 0 10))
         ''j1'' 20)) 0 demo_agent (Inr (text_response ''All good'')) 30)) 0) = Some 30"
proof -
  let ?rt0 = "demo_runtime Map.empty (demo_job ''j1'' ''a1'' 30)"
  let ?rt1 = "snd (execute_job_start ?rt0 0 10)"
  let ?rt2 = "snd (cancel_job ?rt1 ''j1'' 20)"
  have tracked: "rt_active_jobs ?rt1 ''j1'' = Some 0"
    and running: "job_status (rt_jobs ?rt1 0) = RUNNING"
    by (simp_all add: demo_start)
  have cancel: "cancel_job ?rt1 ''j1'' 20 =
     (True, ?rt1\<lparr>rt_jobs := (rt_jobs ?rt1)
                 (0 := (rt_jobs ?rt1 0)\<lparr>job_status := CANCELLED, job_completed_at := Some 20\<rparr>),
              rt_active_jobs := (rt_active_jobs ?rt1)(''j1'' := None)\<rparr>)"
    by (rule cancel_job_running [OF tracked running])
  have no_calls: "(case resp_tool_calls (text_response ''All good'') of
              None \<Rightarrow> (Inr [], rt_rate_limit_counters ?rt2)
            | Some tool_calls \<Rightarrow>
                if tool_calls = [] then (Inr [], rt_rate_limit_counters ?rt2)
                else handle_tool_calls (rt_tool_registry ?rt2) (rt_rate_limit_counters ?rt2)
                       30 (rt_jobs ?rt2 0) tool_calls) = (Inr [], rt_rate_limit_counters ?rt2)"
    by (simp add: text_response_def)
  note resume = execute_job_resume_completes [OF no_calls, of demo_agent]
  have st: "fst (execute_job_start ?rt0 0 10) =
     AwaitBackend demo_agent
        [\<lparr>msg_role = SYSTEM, msg_content = ''You are a test agent''\<rparr>,
         \<lparr>msg_role = USER, msg_content = ''test''\<rparr>] None"
    by (simp add: demo_start)
  have c1: "fst (cancel_job ?rt1 ''j1'' 20)"
    and c2: "job_status (rt_jobs ?rt2 0) = CANCELLED"
    and c3: "job_completed_at (rt_jobs ?rt2 0) = Some 20"
    unfolding cancel by simp_all
  have s1: "res_status (fst (execute_job_resume ?rt2 0 demo_agent
                (Inr (text_response ''All good'')) 30)) = COMPLETED"
    unfolding resume by (simp add: process_response_def)
  have s2: "job_status (rt_jobs (snd (execute_job_resume ?rt2 0 demo_agent
                (Inr (text_response ''All good'')) 30)) 0) = COMPLETED"
    and s3: "job_completed_at (rt_jobs (snd (execute_job_resume ?rt2 0 demo_agent
                (Inr (text_response ''All good'')) 30)) 0) = Some 30"
    unfolding resume by simp_all
  from st c1 c2 c3 s1 s2 s3 show ?thesis
    by (intro conjI)
qed

lemma resume_keeps_other_entries:
  "other \<noteq> job_id (rt_jobs rt ref) \<Longrightarrow>
   rt_active_jobs (snd (execute_job_resume rt ref agent outcome now)) other =
     rt_active_jobs rt other"
proof -
  assume ne: "other \<noteq> job_id (rt_jobs rt ref)"
  from execute_job_resume_shape [of rt ref agent outcome now]
  obtain result counters1 st where
    "execute_job_resume rt ref agent outcome now =
       (result,
        rt\<lparr>rt_rate_limit_counters := counters1,
           rt_jobs := (rt_jobs rt)
             (ref := (rt_jobs rt ref)\<lparr>job_status := st, job_completed_at := Some now\<rparr>),
           rt_active_jobs := (rt_active_jobs rt)(job_id (rt_jobs rt ref) := None)\<rparr>)"
    by blast
  with ne show ?thesis by simp
qed

lemma execute_job_found:
  assumes "get_agent rt (job_agent_id (rt_jobs rt ref)) = Some agent"
  shows "\<exists>messages tools.
     execute_job_start rt ref t0 =
       (AwaitBackend agent messages tools,
        rt\<lparr>rt_active_jobs := (rt_active_jobs rt)(job_id (rt_jobs rt ref) \<mapsto> ref),
           rt_jobs := (rt_jobs rt)
             (ref := (rt_jobs rt ref)\<lparr>job_status := RUNNING, job_started_at := Some t0\<rparr>)\<rparr>)
     \<and> execute_job llm rt ref t0 t1 =
       execute_job_resume
         (rt\<lparr>rt_active_jobs := (rt_active_jobs rt)(job_id (rt_jobs rt ref) \<mapsto> ref),
            rt_jobs := (rt_jobs rt)
              (ref := (rt_jobs rt ref)\<lparr>job_status := RUNNING, job_started_at := Some t0\<rparr>)\<rparr>)
         ref agent
         (llm messages tools (cfg_temperature (agent_config agent))
            (cfg_max_tokens (agent_config agent))) t1"
proof -
  from execute_job_start_found [OF assms, of t0] obtain messages tools where
    "execute_job_start rt ref t0 =
       (AwaitBackend agent messages tools,
        rt\<lparr>rt_active_jobs := (rt_active_jobs rt)(job_id (rt_jobs rt ref) \<mapsto> ref),
           rt_jobs := (rt_jobs rt)
             (ref := (rt_jobs rt ref)\<lparr>job_status := RUNNING, job_started_at := Some t0\<rparr>)\<rparr>)"
    by blast
  then show ?thesis by (simp add: execute_job_def)
qed

text \<open>
  Claim C8. However the backend call ends (a response, a fault of the backend, a fault
  out of a tool call), and whatever ran while \<^verbatim>\<open>execute_job\<close> was suspended, the ledger
  holds no entry for the job's id once \<^verbatim>\<open>execute_job\<close> has returned, and the entries of
  other ids are as they were. So a job whose agent resolves is in the ledger after the
  start of \<^verbatim>\<open>execute_job\<close> and out of it after the return.
\<close>

theorem execute_job_untracks:
  "rt_active_jobs (snd (execute_job_resume rt ref agent outcome now)) (job_id (rt_jobs rt ref))
     = None
   \<and> (\<forall>other. other \<noteq> job_id (rt_jobs rt ref) \<longrightarrow>
         rt_active_jobs (snd (execute_job_resume rt ref agent outcome now)) other =
           rt_active_jobs rt other)
   \<and> (get_agent rt (job_agent_id (rt_jobs rt ref)) \<noteq> None \<longrightarrow>
         rt_active_jobs (snd (execute_job_start rt ref t0)) (job_id (rt_jobs rt ref)) = Some ref
         \<and> rt_active_jobs (snd (execute_job llm rt ref t0 t1)) (job_id (rt_jobs rt ref)) = None)"
proof (intro conjI allI impI)
  show "rt_active_jobs (snd (execute_job_resume rt ref agent outcome now))
          (job_id (rt_jobs rt ref)) = None"
    by (rule resume_untracks)
next
  fix other
  assume "other \<noteq> job_id (rt_jobs rt ref)"
  then show "rt_active_jobs (snd (execute_job_resume rt ref agent outcome now)) other =
           rt_active_jobs rt other"
    by (rule resume_keeps_other_entries)
next
  assume "get_agent rt (job_agent_id (rt_jobs rt ref)) \<noteq> None"
  then obtain a where a: "get_agent rt (job_agent_id (rt_jobs rt ref)) = Some a"
    by blast
  from execute_job_start_found [OF a, of t0]
  show "rt_active_jobs (snd (execute_job_start rt ref t0)) (job_id (rt_jobs rt ref)) = Some ref"
    by auto
next
  assume "get_agent rt (job_agent_id (rt_jobs rt ref)) \<noteq> None"
  then obtain a where a: "get_agent rt (job_agent_id (rt_jobs rt ref)) = Some a"
    by blast
  let ?rt1 = "rt\<lparr>rt_active_jobs := (rt_active_jobs rt)(job_id (rt_jobs rt ref) \<mapsto> ref),
            rt_jobs := (rt_jobs rt)
              (ref := (rt_jobs rt ref)\<lparr>job_status := RUNNING, job_started_at := Some t0\<rparr>)\<rparr>"
  from execute_job_found [OF a, of t0 llm t1] obtain outcome' where
    run: "execute_job llm rt ref t0 t1 = execute_job_resume ?rt1 ref a outcome' t1"
    by blast
  have "job_id (rt_jobs ?rt1 ref) = job_id (rt_jobs rt ref)"
    by simp
  with resume_untracks [of ?rt1 ref a outcome' t1]
  show "rt_active_jobs (snd (execute_job llm rt ref t0 t1)) (job_id (rt_jobs rt ref)) = None"
    by (simp only: run)
qed

lemma demo_get_agent:
  "get_agent (demo_runtime registry (demo_job jid ''a1'' n))
     (job_agent_id (rt_jobs (demo_runtime registry (demo_job jid ''a1'' n)) 0)) = Some demo_agent"
  by (simp add: get_agent_def demo_runtime_def demo_job_def)

lemma demo_job_id:
  "job_id (rt_jobs (demo_runtime registry (demo_job jid a n)) 0) = jid"
  by (simp add: demo_runtime_def demo_job_def)

lemma demo_execute_job:
  "execute_job llm (demo_runtime registry (demo_job jid ''a1'' n)) 0 t0 t1 =
     execute_job_resume
       ((demo_runtime registry (demo_job jid ''a1'' n))
        \<lparr>rt_active_jobs := [jid \<mapsto> 0],
         rt_jobs := (rt_jobs (demo_runtime registry (demo_job jid ''a1'' n)))
           (0 := (demo_job jid ''a1'' n)\<lparr>job_status := RUNNING, job_started_at := Some t0\<rparr>)\<rparr>)
       0 demo_agent
       (llm [\<lparr>msg_role = SYSTEM, msg_content = ''You are a test agent''\<rparr>,
             \<lparr>msg_role = USER, msg_content = ''test''\<rparr>] None 0.7 2000) t1"
  by (simp add: execute_job_def demo_start) (simp add: demo_agent_def)

lemma demo_text_run:
  "fst (execute_job (text_backend content) (demo_runtime registry (demo_job jid ''a1'' n)) 0 t0 t1)
     = \<lparr>res_job_id = jid, res_agent_id = ''a1'', res_status = COMPLETED,
        res_response = content, res_action_items = extract_action_items content,
        res_error = None, res_input_tokens = 10, res_output_tokens = 5,
        res_started_at = Some t0, res_completed_at = Some t1\<rparr>"
proof -
  let ?rt1 = "(demo_runtime registry (demo_job jid ''a1'' n))
        \<lparr>rt_active_jobs := [jid \<mapsto> 0],
         rt_jobs := (rt_jobs (demo_runtime registry (demo_job jid ''a1'' n)))
           (0 := (demo_job jid ''a1'' n)\<lparr>job_status := RUNNING, job_started_at := Some t0\<rparr>)\<rparr>"
  have no_calls: "(case resp_tool_calls (text_response content) of
              None \<Rightarrow> (Inr [], rt_rate_limit_counters ?rt1)
            | Some tool_calls \<Rightarrow>
                if tool_calls = [] then (Inr [], rt_rate_limit_counters ?rt1)
                else handle_tool_calls (rt_tool_registry ?rt1) (rt_rate_limit_counters ?rt1)
                       t1 (rt_jobs ?rt1 0) tool_calls) = (Inr [], rt_rate_limit_counters ?rt1)"
    by (simp add: text_response_def)
  show ?thesis
    unfolding demo_execute_job text_backend_def
      execute_job_resume_completes [OF no_calls, of demo_agent]
    by (simp add: process_response_def text_response_def demo_job_def demo_agent_def)
qed

theorem execute_job_untracks_witness:
  "rt_active_jobs (snd (execute_job_start
      (demo_runtime Map.empty (demo_job ''j1'' ''a1'' 30)) 0 10)) ''j1'' = Some 0
   \<and> rt_active_jobs (snd (execute_job (text_backend ''All good'')
      (demo_runtime Map.empty (demo_job ''j1'' ''a1'' 30)) 0 10 20)) ''j1'' = None
   \<and> rt_active_jobs (snd (execute_job (failing_backend ''boom'')
      (demo_runtime Map.empty (demo_job ''j1'' ''a1'' 30)) 0 10 20)) ''j1'' = None
   \<and> res_status (fst (execute_job (text_backend ''All good'')
      (demo_runtime Map.empty (demo_job ''j1'' ''a1'' 30)) 0 10 20)) = COMPLETED
   \<and> res_response (fst (execute_job (text_backend ''All good'')
      (demo_runtime Map.empty (demo_job ''j1'' ''a1'' 30)) 0 10 20)) = ''All good''
   \<and> res_action_items (fst (execute_job (text_backend ''All good'')
      (demo_runtime Map.empty (demo_job ''j1'' ''a1'' 30)) 0 10 20)) = []"
proof -
  let ?rt = "demo_runtime Map.empty (demo_job ''j1'' ''a1'' 30)"
  have found: "get_agent ?rt (job_agent_id (rt_jobs ?rt 0)) \<noteq> None"
    by (simp add: demo_get_agent)
  have jid: "job_id (rt_jobs ?rt 0) = ''j1''"
    by (rule demo_job_id)
  from execute_job_untracks
         [of ?rt 0 demo_agent "Inl (PyException [])" 0 10 "text_backend ''All good''" 20] found
  have "rt_active_jobs (snd (execute_job_start ?rt 0 10)) (job_id (rt_jobs ?rt 0)) = Some 0"
    and "rt_active_jobs (snd (execute_job (text_backend ''All good'') ?rt 0 10 20))
           (job_id (rt_jobs ?rt 0)) = None"
    by blast+
  then have 1: "rt_active_jobs (snd (execute_job_start ?rt 0 10)) ''j1'' = Some 0"
    and 2: "rt_active_jobs (snd (execute_job (text_backend ''All good'') ?rt 0 10 20)) ''j1'' = None"
    by (simp_all only: jid)
  from execute_job_untracks
         [of ?rt 0 demo_agent "Inl (PyException [])" 0 10 "failing_backend ''boom''" 20] found
  have "rt_active_jobs (snd (execute_job (failing_backend ''boom'') ?rt 0 10 20))
           (job_id (rt_jobs ?rt 0)) = None"
    by blast
  then have 3: "rt_active_jobs (snd (execute_job (failing_backend ''boom'') ?rt 0 10 20)) ''j1'' = None"
    by (simp only: jid)
  have items: "extract_action_items ''All good'' = []"
    by (simp add: extract_action_items_def line_action_items_def py_strip_def py_isspace_def
          py_startswith_def)
  have 4: "res_status (fst (execute_job (text_backend ''All good'') ?rt 0 10 20)) = COMPLETED"
    and 5: "res_response (fst (execute_job (text_backend ''All good'') ?rt 0 10 20)) = ''All good''"
    and 6: "res_action_items (fst (execute_job (text_backend ''All good'') ?rt 0 10 20)) = []"
    by (simp_all add: demo_text_run items)
  from 1 2 3 4 5 6 show ?thesis by (intro conjI)
qed

section \<open>Timeout budget\<close>

lemma handle_tool_calls_cong:
  "job_id j' = job_id j \<Longrightarrow> job_agent_id j' = job_agent_id j \<Longrightarrow>
   job_context j' = job_context j \<Longrightarrow>
   handle_tool_calls registry counters now j' tool_calls =
   handle_tool_calls registry counters now j tool_calls"
  by (induction tool_calls arbitrary: counters)
     (simp_all add: tool_call_context_def split: prod.splits sum.splits)

lemma resume_result_cong:
  assumes reg: "rt_tool_registry rt' = rt_tool_registry rt"
      and cnt: "rt_rate_limit_counters rt' = rt_rate_limit_counters rt"
      and jid: "job_id (rt_jobs rt' ref) = job_id (rt_jobs rt ref)"
      and aid: "job_agent_id (rt_jobs rt' ref) = job_agent_id (rt_jobs rt ref)"
      and ctx: "job_context (rt_jobs rt' ref) = job_context (rt_jobs rt ref)"
      and sta: "job_started_at (rt_jobs rt' ref) = job_started_at (rt_jobs rt ref)"
  shows "fst (execute_job_resume rt' ref agent outcome now) =
         fst (execute_job_resume rt ref agent outcome now)"
proof -
  have failed: "failed_result (rt_jobs rt' ref) msg = failed_result (rt_jobs rt ref) msg" for msg
    by (simp add: failed_result_def jid aid)
  have processed: "process_response agent (rt_jobs rt' ref) response now =
                   process_response agent (rt_jobs rt ref) response now" for response
    by (simp add: process_response_def jid sta)
  show ?thesis
  proof (cases outcome)
    case (Inl e)
    obtain msg where e: "e = PyException msg" by (cases e)
    show ?thesis
      unfolding Inl e execute_job_resume_fails_backend by (simp add: failed)
  next
    case (Inr response)
    let ?h = "\<lambda>rt. (case resp_tool_calls response of
              None \<Rightarrow> (Inr [], rt_rate_limit_counters rt)
            | Some tool_calls \<Rightarrow>
                if tool_calls = [] then (Inr [], rt_rate_limit_counters rt)
                else handle_tool_calls (rt_tool_registry rt) (rt_rate_limit_counters rt)
                       now (rt_jobs rt ref) tool_calls)"
    have same: "?h rt' = ?h rt"
      by (simp add: reg cnt handle_tool_calls_cong [OF jid aid ctx] split: option.splits)
    obtain r counters1 where h: "?h rt = (r, counters1)" by (cases "?h rt")
    show ?thesis
    proof (cases r)
      case (Inl e)
      obtain msg where "e = PyException msg" by (cases e)
      with h Inl have h1: "?h rt = (Inl (PyException msg), counters1)" by simp
      with same have h2: "?h rt' = (Inl (PyException msg), counters1)" by simp
      show ?thesis
        unfolding \<open>outcome = Inr response\<close>
          execute_job_resume_fails_tool [OF h1] execute_job_resume_fails_tool [OF h2]
        by (simp add: failed)
    next
      case (Inr tool_results)
      with h have h1: "?h rt = (Inr tool_results, counters1)" by simp
      with same have h2: "?h rt' = (Inr tool_results, counters1)" by simp
      show ?thesis
        unfolding \<open>outcome = Inr response\<close>
          execute_job_resume_completes [OF h1] execute_job_resume_completes [OF h2]
        by (simp add: processed)
    qed
  qed
qed

lemma start_timeout:
  "fst (execute_job_start
          (rt\<lparr>rt_jobs := (rt_jobs rt)(ref := (rt_jobs rt ref)\<lparr>job_timeout_seconds := n\<rparr>)\<rparr>) ref t0)
   = fst (execute_job_start rt ref t0)"
  by (simp add: execute_job_start_def Let_def get_agent_def prepare_messages_def
        failed_result_def split: option.splits)

lemma run_timeout:
  "fst (execute_job llm
          (rt\<lparr>rt_jobs := (rt_jobs rt)(ref := (rt_jobs rt ref)\<lparr>job_timeout_seconds := n\<rparr>)\<rparr>)
          ref t0 t1)
   = fst (execute_job llm rt ref t0 t1)"
proof -
  let ?rt' = "rt\<lparr>rt_jobs := (rt_jobs rt)(ref := (rt_jobs rt ref)\<lparr>job_timeout_seconds := n\<rparr>)\<rparr>"
  have agent': "get_agent ?rt' (job_agent_id (rt_jobs ?rt' ref)) =
                get_agent rt (job_agent_id (rt_jobs rt ref))"
    by (simp add: get_agent_def)
  show ?thesis
  proof (cases "get_agent rt (job_agent_id (rt_jobs rt ref))")
    case None
    with agent' have None': "get_agent ?rt' (job_agent_id (rt_jobs ?rt' ref)) = None"
      by simp
    show ?thesis
      unfolding execute_job_def execute_job_start_not_found [OF None]
        execute_job_start_not_found [OF None']
      by (simp add: failed_result_def)
  next
    case (Some agent)
    with agent' have Some': "get_agent ?rt' (job_agent_id (rt_jobs ?rt' ref)) = Some agent"
      by simp
    from execute_job_start_found [OF Some, of t0] obtain messages tools rt1 where
      s: "execute_job_start rt ref t0 = (AwaitBackend agent messages tools, rt1)"
      and rt1: "rt1 = rt\<lparr>rt_active_jobs := (rt_active_jobs rt)(job_id (rt_jobs rt ref) \<mapsto> ref),
           rt_jobs := (rt_jobs rt)
             (ref := (rt_jobs rt ref)\<lparr>job_status := RUNNING, job_started_at := Some t0\<rparr>)\<rparr>"
      by blast
    from execute_job_start_found [OF Some', of t0] obtain messages' tools' rt1' where
      s': "execute_job_start ?rt' ref t0 = (AwaitBackend agent messages' tools', rt1')"
      and rt1': "rt1' = ?rt'\<lparr>rt_active_jobs := (rt_active_jobs ?rt')(job_id (rt_jobs ?rt' ref) \<mapsto> ref),
           rt_jobs := (rt_jobs ?rt')
             (ref := (rt_jobs ?rt' ref)\<lparr>job_status := RUNNING, job_started_at := Some t0\<rparr>)\<rparr>"
      by blast
    from start_timeout [of rt ref n t0] s s'
    have same: "messages' = messages" "tools' = tools" by simp_all
    have reg: "rt_tool_registry rt1' = rt_tool_registry rt1"
      and cnt: "rt_rate_limit_counters rt1' = rt_rate_limit_counters rt1"
      and jid: "job_id (rt_jobs rt1' ref) = job_id (rt_jobs rt1 ref)"
      and aid: "job_agent_id (rt_jobs rt1' ref) = job_agent_id (rt_jobs rt1 ref)"
      and ctx: "job_context (rt_jobs rt1' ref) = job_context (rt_jobs rt1 ref)"
      and sta: "job_started_at (rt_jobs rt1' ref) = job_started_at (rt_jobs rt1 ref)"
      unfolding rt1 rt1' by simp_all
    show ?thesis
      unfolding execute_job_def s s' same
      by (simp add: resume_result_cong [OF reg cnt jid aid ctx sta])
  qed
qed

text \<open>
  Claim C9, as amended. \<^verbatim>\<open>execute_job\<close> does not use the job's \<^verbatim>\<open>timeout_seconds\<close>: the
  request it sends to the backend and the result it returns are the same whatever the
  field holds. A fault raised by the backend call (the LLM client's own timeout is one)
  gives a FAILED result that carries the fault's description, not a status of its own.
\<close>

theorem execute_job_ignores_timeout_seconds:
  "fst (execute_job llm
          (rt\<lparr>rt_jobs := (rt_jobs rt)(ref := (rt_jobs rt ref)\<lparr>job_timeout_seconds := n\<rparr>)\<rparr>)
          ref t0 t1)
     = fst (execute_job llm rt ref t0 t1)
   \<and> fst (execute_job_start
          (rt\<lparr>rt_jobs := (rt_jobs rt)(ref := (rt_jobs rt ref)\<lparr>job_timeout_seconds := n\<rparr>)\<rparr>) ref t0)
     = fst (execute_job_start rt ref t0)
   \<and> res_status (fst (execute_job_resume rt ref agent (Inl (PyException msg)) now)) = FAILED
   \<and> res_error (fst (execute_job_resume rt ref agent (Inl (PyException msg)) now)) = Some msg
   \<and> (\<forall>agent1 messages tools rt1.
         execute_job_start rt ref t0 = (AwaitBackend agent1 messages tools, rt1)
         \<and> llm messages tools (cfg_temperature (agent_config agent1))
              (cfg_max_tokens (agent_config agent1)) = Inl (PyException msg) \<longrightarrow>
         res_status (fst (execute_job llm rt ref t0 t1)) = FAILED
         \<and> res_error (fst (execute_job llm rt ref t0 t1)) = Some msg)"
proof (intro conjI allI impI)
  show "fst (execute_job llm
          (rt\<lparr>rt_jobs := (rt_jobs rt)(ref := (rt_jobs rt ref)\<lparr>job_timeout_seconds := n\<rparr>)\<rparr>)
          ref t0 t1)
     = fst (execute_job llm rt ref t0 t1)"
    by (rule run_timeout)
next
  show "fst (execute_job_start
          (rt\<lparr>rt_jobs := (rt_jobs rt)(ref := (rt_jobs rt ref)\<lparr>job_timeout_seconds := n\<rparr>)\<rparr>) ref t0)
     = fst (execute_job_start rt ref t0)"
    by (rule start_timeout)
next
  show "res_status (fst (execute_job_resume rt ref agent (Inl (PyException msg)) now)) = FAILED"
    by (simp add: execute_job_resume_fails_backend failed_result_def)
next
  show "res_error (fst (execute_job_resume rt ref agent (Inl (PyException msg)) now)) = Some msg"
    by (simp add: execute_job_resume_fails_backend failed_result_def)
next
  fix agent1 messages tools rt1
  assume a: "execute_job_start rt ref t0 = (AwaitBackend agent1 messages tools, rt1)
         \<and> llm messages tools (cfg_temperature (agent_config agent1))
              (cfg_max_tokens (agent_config agent1)) = Inl (PyException msg)"
  then have run: "execute_job llm rt ref t0 t1 =
                    execute_job_resume rt1 ref agent1 (Inl (PyException msg)) t1"
    by (simp add: execute_job_def)
  show "res_status (fst (execute_job llm rt ref t0 t1)) = FAILED"
    unfolding run by (simp add: execute_job_resume_fails_backend failed_result_def)
  show "res_error (fst (execute_job llm rt ref t0 t1)) = Some msg"
    unfolding run by (simp add: execute_job_resume_fails_backend failed_result_def)
qed

theorem execute_job_ignores_timeout_seconds_witness:
  "res_status (fst (execute_job (failing_backend ''Request timed out.'')
      (demo_runtime Map.empty (demo_job ''j1'' ''a1'' 30)) 0 0 30000000)) = FAILED
   \<and> res_error (fst (execute_job (failing_backend ''Request timed out.'')
      (demo_runtime Map.empty (demo_job ''j1'' ''a1'' 30)) 0 0 30000000))
       = Some ''Request timed out.''"
proof -
  let ?rt = "demo_runtime Map.empty (demo_job ''j1'' ''a1'' 30)"
  let ?llm = "failing_backend ''Request timed out.''"
  have "?llm [\<lparr>msg_role = SYSTEM, msg_content = ''You are a test agent''\<rparr>,
              \<lparr>msg_role = USER, msg_content = ''test''\<rparr>] None
          (cfg_temperature (agent_config demo_agent)) (cfg_max_tokens (agent_config demo_agent))
        = Inl (PyException ''Request timed out.'')"
    by (simp add: failing_backend_def)
  with execute_job_ignores_timeout_seconds
         [of ?llm ?rt 0 30 0 30000000 demo_agent "''Request timed out.''" 0]
       demo_start [of Map.empty "''j1''" 30 0]
  show ?thesis by blast
qed

text \<open>
  Claim C9 as stated fails: a job with a timeout budget of 1 second, started at time 0,
  whose backend answers after 5 seconds, ends COMPLETED with the backend's text and no
  error.
\<close>

theorem backend_call_outlives_job_timeout:
  "job_timeout_seconds (demo_job ''j1'' ''a1'' 1) = 1
   \<and> res_status (fst (execute_job (text_backend ''done'')
        (demo_runtime Map.empty (demo_job ''j1'' ''a1'' 1)) 0 0 5000000)) = COMPLETED
   \<and> res_error (fst (execute_job (text_backend ''done'')
        (demo_runtime Map.empty (demo_job ''j1'' ''a1'' 1)) 0 0 5000000)) = None
   \<and> res_response (fst (execute_job (text_backend ''done'')
        (demo_runtime Map.empty (demo_job ''j1'' ''a1'' 1)) 0 0 5000000)) = ''done''
   \<and> res_started_at (fst (execute_job (text_backend ''done'')
        (demo_runtime Map.empty (demo_job ''j1'' ''a1'' 1)) 0 0 5000000)) = Some 0
   \<and> res_completed_at (fst (execute_job (text_backend ''done'')
        (demo_runtime Map.empty (demo_job ''j1'' ''a1'' 1)) 0 0 5000000)) = Some 5000000"
  by (simp add: demo_text_run) (simp add: demo_job_def)

section \<open>Tool calls of a job, follow-up items\<close>

lemma handle_tool_calls_append:
  "handle_tool_calls registry counters now job (pre @ post) =
     (case handle_tool_calls registry counters now job pre of
        (Inl e, counters1) \<Rightarrow> (Inl e, counters1)
      | (Inr results, counters1) \<Rightarrow>
          (case handle_tool_calls registry counters1 now job post of
             (Inl e, counters2) \<Rightarrow> (Inl e, counters2)
           | (Inr further, counters2) \<Rightarrow> (Inr (results @ further), counters2)))"
  by (induction pre arbitrary: counters) (simp_all split: prod.splits sum.splits)

lemma handle_tool_calls_next_unauthorized:
  assumes "handle_tool_calls registry counters now job pre = (Inr results, counters1)"
      and "registry (tc_name tc) = Some tool" "td_requires_auth (tool_definition tool)"
  shows "handle_tool_calls registry counters now job (pre @ [tc]) =
           (Inr (results @ [refusal (tc_name tc) (tool_call_context job tc) TOOL_UNAUTHORIZED
                              ''Permission denied for tool execution'' now]), counters1)"
proof -
  from assms(2,3)
  have "execute_tool registry counters1 now (tc_name tc) (tc_parameters tc)
               (tool_call_context job tc) =
             (Inr (refusal (tc_name tc) (tool_call_context job tc) TOOL_UNAUTHORIZED
                     ''Permission denied for tool execution'' now), counters1)"
    by (simp add: execute_tool_unauthorized no_user_id_no_permission
          tool_call_context_no_user_id)
  then show ?thesis
    by (simp add: handle_tool_calls_append assms(1))
qed

lemma resume_runs_tool_calls:
  assumes "resp_tool_calls response = Some tool_calls" "tool_calls \<noteq> []"
  shows "rt_rate_limit_counters (snd (execute_job_resume rt ref agent (Inr response) now)) =
         snd (handle_tool_calls (rt_tool_registry rt) (rt_rate_limit_counters rt) now
                (rt_jobs rt ref) tool_calls)"
proof -
  let ?run = "handle_tool_calls (rt_tool_registry rt) (rt_rate_limit_counters rt) now
                (rt_jobs rt ref) tool_calls"
  let ?h = "(case resp_tool_calls response of
              None \<Rightarrow> (Inr [], rt_rate_limit_counters rt)
            | Some tool_calls \<Rightarrow>
                if tool_calls = [] then (Inr [], rt_rate_limit_counters rt)
                else handle_tool_calls (rt_tool_registry rt) (rt_rate_limit_counters rt)
                       now (rt_jobs rt ref) tool_calls)"
  from assms have same: "?h = ?run" by simp
  obtain r counters1 where run: "?run = (r, counters1)" by (cases ?run)
  show ?thesis
  proof (cases r)
    case (Inl e)
    obtain msg where "e = PyException msg" by (cases e)
    with same run Inl have "?h = (Inl (PyException msg), counters1)" by simp
    from execute_job_resume_fails_tool [OF this, of agent] run show ?thesis by simp
  next
    case (Inr tool_results)
    with same run have "?h = (Inr tool_results, counters1)" by simp
    from execute_job_resume_completes [OF this, of agent] run show ?thesis by simp
  qed
qed

text \<open>
  Claim C10. The context that \<^verbatim>\<open>_handle_tool_calls\<close> passes with a tool call has exactly the
  keys \<^verbatim>\<open>call_id\<close>, \<^verbatim>\<open>job_id\<close>, \<^verbatim>\<open>agent_id\<close> and \<^verbatim>\<open>chat_id\<close>, and no \<^verbatim>\<open>user_id\<close>. So
  whenever the loop of \<^verbatim>\<open>_handle_tool_calls\<close> reaches a tool call that resolves to a tool
  requiring auth, the outcome of that call is the UNAUTHORIZED refusal, whatever the
  parameters, and the rate window is not touched; for a list of such calls the outcomes
  are these refusals, one per call in call order. The continuation of \<^verbatim>\<open>execute_job\<close> runs
  this loop on the tool calls of the response: the rate window it leaves is the one the
  loop leaves, and after a response all of whose tool calls are of that kind the job is
  COMPLETED and the rate window as it was.
\<close>

theorem tool_calls_carry_no_user_id:
  "dom (tool_call_context job tool_call) = {''call_id'', ''job_id'', ''agent_id'', ''chat_id''}
   \<and> tool_call_context job tool_call ''user_id'' = None
   \<and> (\<forall>tool. registry (tc_name tool_call) = Some tool
          \<and> td_requires_auth (tool_definition tool) \<longrightarrow>
        (\<exists>result.
           execute_tool registry counters now (tc_name tool_call) (tc_parameters tool_call)
             (tool_call_context job tool_call) = (Inr result, counters)
           \<and> ter_status result = TOOL_UNAUTHORIZED
           \<and> ter_call_id result = tc_id tool_call))
   \<and> (\<forall>pre results counters1 tool.
        handle_tool_calls registry counters now job pre = (Inr results, counters1)
        \<and> registry (tc_name tool_call) = Some tool
        \<and> td_requires_auth (tool_definition tool) \<longrightarrow>
        (\<exists>result.
           handle_tool_calls registry counters now job (pre @ [tool_call]) =
             (Inr (results @ [result]), counters1)
           \<and> ter_status result = TOOL_UNAUTHORIZED
           \<and> ter_call_id result = tc_id tool_call
           \<and> ter_tool_id result = tc_name tool_call))
   \<and> ((\<forall>tc \<in> set tool_calls. \<exists>tool. registry (tc_name tc) = Some tool
            \<and> td_requires_auth (tool_definition tool)) \<longrightarrow>
        handle_tool_calls registry counters now job tool_calls =
          (Inr (map (\<lambda>tc. refusal (tc_name tc) (tool_call_context job tc) TOOL_UNAUTHORIZED
                            ''Permission denied for tool execution'' now) tool_calls),
           counters))
   \<and> (resp_tool_calls response = Some tool_calls \<and> tool_calls \<noteq> [] \<longrightarrow>
        rt_rate_limit_counters (snd (execute_job_resume rt ref agent (Inr response) now)) =
          snd (handle_tool_calls (rt_tool_registry rt) (rt_rate_limit_counters rt) now
                 (rt_jobs rt ref) tool_calls))
   \<and> (resp_tool_calls response = Some tool_calls
        \<and> (\<forall>tc \<in> set tool_calls. \<exists>tool. rt_tool_registry rt (tc_name tc) = Some tool
              \<and> td_requires_auth (tool_definition tool)) \<longrightarrow>
        res_status (fst (execute_job_resume rt ref agent (Inr response) now)) = COMPLETED
        \<and> rt_rate_limit_counters (snd (execute_job_resume rt ref agent (Inr response) now))
            = rt_rate_limit_counters rt)"
proof (intro conjI allI impI)
  show "dom (tool_call_context job tool_call) = {''call_id'', ''job_id'', ''agent_id'', ''chat_id''}"
    by (rule tool_call_context_dom)
next
  show "tool_call_context job tool_call ''user_id'' = None"
    by (rule tool_call_context_no_user_id)
next
  fix tool
  assume "registry (tc_name tool_call) = Some tool \<and> td_requires_auth (tool_definition tool)"
  then have "execute_tool registry counters now (tc_name tool_call) (tc_parameters tool_call)
               (tool_call_context job tool_call) =
             (Inr (refusal (tc_name tool_call) (tool_call_context job tool_call)
                     TOOL_UNAUTHORIZED ''Permission denied for tool execution'' now), counters)"
    by (simp add: execute_tool_unauthorized no_user_id_no_permission
          tool_call_context_no_user_id)
  moreover have "ter_call_id (refusal (tc_name tool_call) (tool_call_context job tool_call)
                     TOOL_UNAUTHORIZED ''Permission denied for tool execution'' now)
                 = tc_id tool_call"
    by (simp add: refusal_def dict_get_def tool_call_context_def)
  ultimately show "\<exists>result.
           execute_tool registry counters now (tc_name tool_call) (tc_parameters tool_call)
             (tool_call_context job tool_call) = (Inr result, counters)
           \<and> ter_status result = TOOL_UNAUTHORIZED
           \<and> ter_call_id result = tc_id tool_call"
    by (simp add: refusal_def)
next
  fix pre results counters1 tool
  assume a: "handle_tool_calls registry counters now job pre = (Inr results, counters1)
        \<and> registry (tc_name tool_call) = Some tool
        \<and> td_requires_auth (tool_definition tool)"
  then have p: "handle_tool_calls registry counters now job pre = (Inr results, counters1)"
    and r: "registry (tc_name tool_call) = Some tool"
    and t: "td_requires_auth (tool_definition tool)"
    by simp_all
  have "handle_tool_calls registry counters now job (pre @ [tool_call]) =
           (Inr (results @ [refusal (tc_name tool_call) (tool_call_context job tool_call)
                              TOOL_UNAUTHORIZED ''Permission denied for tool execution'' now]),
            counters1)"
    by (rule handle_tool_calls_next_unauthorized [OF p r t])
  moreover have "ter_call_id (refusal (tc_name tool_call) (tool_call_context job tool_call)
                     TOOL_UNAUTHORIZED ''Permission denied for tool execution'' now)
                 = tc_id tool_call"
    by (simp add: refusal_def dict_get_def tool_call_context_def)
  ultimately show "\<exists>result.
           handle_tool_calls registry counters now job (pre @ [tool_call]) =
             (Inr (results @ [result]), counters1)
           \<and> ter_status result = TOOL_UNAUTHORIZED
           \<and> ter_call_id result = tc_id tool_call
           \<and> ter_tool_id result = tc_name tool_call"
    by (simp add: refusal_def)
next
  assume "\<forall>tc \<in> set tool_calls. \<exists>tool. registry (tc_name tc) = Some tool
            \<and> td_requires_auth (tool_definition tool)"
  then show "handle_tool_calls registry counters now job tool_calls =
          (Inr (map (\<lambda>tc. refusal (tc_name tc) (tool_call_context job tc) TOOL_UNAUTHORIZED
                            ''Permission denied for tool execution'' now) tool_calls),
           counters)"
    by (intro handle_tool_calls_all_unauthorized) blast
next
  assume "resp_tool_calls response = Some tool_calls \<and> tool_calls \<noteq> []"
  then show "rt_rate_limit_counters (snd (execute_job_resume rt ref agent (Inr response) now)) =
          snd (handle_tool_calls (rt_tool_registry rt) (rt_rate_limit_counters rt) now
                 (rt_jobs rt ref) tool_calls)"
    by (intro resume_runs_tool_calls) simp_all
next
  assume a: "resp_tool_calls response = Some tool_calls
        \<and> (\<forall>tc \<in> set tool_calls. \<exists>tool. rt_tool_registry rt (tc_name tc) = Some tool
              \<and> td_requires_auth (tool_definition tool))"
  then have "handle_tool_calls (rt_tool_registry rt) (rt_rate_limit_counters rt) now
               (rt_jobs rt ref) tool_calls =
             (Inr (map (\<lambda>tc. refusal (tc_name tc) (tool_call_context (rt_jobs rt ref) tc)
                         TOOL_UNAUTHORIZED ''Permission denied for tool execution'' now)
                     tool_calls), rt_rate_limit_counters rt)"
    by (intro handle_tool_calls_all_unauthorized) blast
  with a have "\<exists>tool_results. (case resp_tool_calls response of
              None \<Rightarrow> (Inr [], rt_rate_limit_counters rt)
            | Some tool_calls \<Rightarrow>
                if tool_calls = [] then (Inr [], rt_rate_limit_counters rt)
                else handle_tool_calls (rt_tool_registry rt) (rt_rate_limit_counters rt)
                       now (rt_jobs rt ref) tool_calls)
              = (Inr tool_results, rt_rate_limit_counters rt)"
    by simp
  then obtain tool_results where h: "(case resp_tool_calls response of
              None \<Rightarrow> (Inr [], rt_rate_limit_counters rt)
            | Some tool_calls \<Rightarrow>
                if tool_calls = [] then (Inr [], rt_rate_limit_counters rt)
                else handle_tool_calls (rt_tool_registry rt) (rt_rate_limit_counters rt)
                       now (rt_jobs rt ref) tool_calls)
              = (Inr tool_results, rt_rate_limit_counters rt)"
    by blast
  show "res_status (fst (execute_job_resume rt ref agent (Inr response) now)) = COMPLETED"
    unfolding execute_job_resume_completes [OF h] by (simp add: process_response_def)
  show "rt_rate_limit_counters (snd (execute_job_resume rt ref agent (Inr response) now))
            = rt_rate_limit_counters rt"
    unfolding execute_job_resume_completes [OF h] by simp
qed

theorem tool_calls_carry_no_user_id_witness:
  "\<exists>first second.
     handle_tool_calls
       [''mock_tool'' \<mapsto> MockTool True (Some 1) 60, ''indexing_tool'' \<mapsto> IndexingTool]
       Map.empty 63900000000000000 (demo_job ''j1'' ''a1'' 30)
       [\<lparr>tc_id = ''call-1'', tc_name = ''indexing_tool'', tc_parameters = [''query'' \<mapsto> ''q'']\<rparr>,
        \<lparr>tc_id = ''call-2'', tc_name = ''mock_tool'', tc_parameters = [''value'' \<mapsto> ''v'']\<rparr>]
       = (Inr [first, second], Map.empty)
     \<and> ter_status first = TOOL_FAILED
     \<and> ter_status second = TOOL_UNAUTHORIZED \<and> ter_call_id second = ''call-2''
     \<and> ter_tool_id second = ''mock_tool''"
proof -
  let ?reg = "[''mock_tool'' \<mapsto> MockTool True (Some 1) 60, ''indexing_tool'' \<mapsto> IndexingTool]"
  let ?job = "demo_job ''j1'' ''a1'' 30"
  let ?tc1 = "\<lparr>tc_id = ''call-1'', tc_name = ''indexing_tool'',
               tc_parameters = [''query'' \<mapsto> ''q'']\<rparr>"
  let ?tc2 = "\<lparr>tc_id = ''call-2'', tc_name = ''mock_tool'',
               tc_parameters = [''value'' \<mapsto> ''v'']\<rparr>"
  let ?first = "refusal ''indexing_tool'' (tool_call_context ?job ?tc1) TOOL_FAILED
                  ''not implemented'' 63900000000000000"
  have "execute_tool ?reg Map.empty 63900000000000000 ''indexing_tool'' [''query'' \<mapsto> ''q'']
          (tool_call_context ?job ?tc1) = (Inr ?first, Map.empty)"
    by (simp add: execute_tool_def registry_get_def IndexingTool_checks)
       (simp add: IndexingTool_def)
  then have pre: "handle_tool_calls ?reg Map.empty 63900000000000000 ?job [?tc1]
                    = (Inr [?first], Map.empty)"
    by simp
  have auth: "?reg (tc_name ?tc2) = Some (MockTool True (Some 1) 60)
              \<and> td_requires_auth (tool_definition (MockTool True (Some 1) 60))"
    by (simp add: MockTool_def)
  from tool_calls_carry_no_user_id
         [of ?job ?tc2 ?reg Map.empty 63900000000000000 "[]" "text_response []"
             "demo_runtime Map.empty ?job" 0 demo_agent] pre auth
  have "\<exists>result.
           handle_tool_calls ?reg Map.empty 63900000000000000 ?job ([?tc1] @ [?tc2]) =
             (Inr ([?first] @ [result]), Map.empty)
           \<and> ter_status result = TOOL_UNAUTHORIZED
           \<and> ter_call_id result = tc_id ?tc2
           \<and> ter_tool_id result = tc_name ?tc2"
    by blast
  then obtain result where
    "handle_tool_calls ?reg Map.empty 63900000000000000 ?job [?tc1, ?tc2] =
             (Inr [?first, result], Map.empty)"
    "ter_status result = TOOL_UNAUTHORIZED" "ter_call_id result = ''call-2''"
    "ter_tool_id result = ''mock_tool''"
    by auto
  moreover have "ter_status ?first = TOOL_FAILED"
    by (simp add: refusal_def)
  ultimately show ?thesis by blast
qed

lemma extract_loop_concat:
  "extract_loop lines action_items = action_items @ concat (map line_action_items lines)"
  by (induction lines arbitrary: action_items) simp_all

lemma py_split_once_found:
  assumes "sep \<notin> set before"
  shows "py_split_once sep (before @ sep # rest) = [before, rest]"
proof -
  from assms have ne: "\<And>c. c \<in> set before \<Longrightarrow> c \<noteq> sep"
    by blast
  have "takeWhile (\<lambda>c. c \<noteq> sep) (before @ sep # rest) = before"
    by (simp add: takeWhile_append2 [OF ne])
  moreover have "dropWhile (\<lambda>c. c \<noteq> sep) (before @ sep # rest) = sep # rest"
    by (simp add: dropWhile_append2 [OF ne])
  ultimately show ?thesis
    by (simp add: py_split_once_def)
qed

lemma string_example:
  "map ai_description (extract_action_items
      (''- [ ] call Bob'' @ [CHR 0x0A] @ ''some text'' @ [CHR 0x0A] @ ''* [x] ship it''))
     = [''call Bob'', ''ship it'']"
  by (simp add: extract_action_items_def line_action_items_def py_strip_def py_isspace_def
        py_startswith_def py_split_once_def new_ActionItem_def)

text \<open>
  Claim C7, as amended. The items are those of the lines of the text, in line order. A
  line that, trimmed, does not begin with "- [" or "* [" gives nothing. A line that,
  trimmed, begins with one of them and contains "]" gives exactly one item, described
  by the trimmed text after the first "]", provided that text is not empty and does not
  start with "["; otherwise it gives nothing. The text
  "- [ ] call Bob", "some text", "* [x] ship it" on three lines gives the two items
  "call Bob" and "ship it".
\<close>

theorem extract_action_items_line_scan:
  "extract_action_items content = concat (map line_action_items (py_split CHR 0x0A content))
   \<and> (\<forall>raw_line.
        \<not> (py_startswith (py_strip raw_line) ''- ['' \<or> py_startswith (py_strip raw_line) ''* ['')
        \<longrightarrow> line_action_items raw_line = [])
   \<and> (\<forall>raw_line before rest.
        (py_startswith (py_strip raw_line) ''- ['' \<or> py_startswith (py_strip raw_line) ''* ['')
        \<and> py_strip raw_line = before @ CHR '']'' # rest \<and> CHR '']'' \<notin> set before \<longrightarrow>
        line_action_items raw_line =
          (if py_strip rest \<noteq> [] \<and> \<not> py_startswith (py_strip rest) ''[''
           then [new_ActionItem (py_strip rest)] else []))
   \<and> map ai_description (extract_action_items
        (''- [ ] call Bob'' @ [CHR 0x0A] @ ''some text'' @ [CHR 0x0A] @ ''* [x] ship it''))
       = [''call Bob'', ''ship it'']"
proof (intro conjI allI impI)
  show "extract_action_items content = concat (map line_action_items (py_split CHR 0x0A content))"
    by (simp add: extract_action_items_def extract_loop_concat)
next
  fix raw_line
  assume "\<not> (py_startswith (py_strip raw_line) ''- [''
             \<or> py_startswith (py_strip raw_line) ''* ['')"
  then show "line_action_items raw_line = []"
    by (simp add: line_action_items_def Let_def)
next
  fix raw_line before rest
  assume a: "(py_startswith (py_strip raw_line) ''- [''
               \<or> py_startswith (py_strip raw_line) ''* ['')
        \<and> py_strip raw_line = before @ CHR '']'' # rest \<and> CHR '']'' \<notin> set before"
  then have "last (py_split_once CHR '']'' (py_strip raw_line)) = rest"
    by (simp add: py_split_once_found)
  with a show "line_action_items raw_line =
          (if py_strip rest \<noteq> [] \<and> \<not> py_startswith (py_strip rest) ''[''
           then [new_ActionItem (py_strip rest)] else [])"
    by (auto simp add: line_action_items_def Let_def)
next
  show "map ai_description (extract_action_items
        (''- [ ] call Bob'' @ [CHR 0x0A] @ ''some text'' @ [CHR 0x0A] @ ''* [x] ship it''))
       = [''call Bob'', ''ship it'']"
    by (rule string_example)
qed

theorem extract_action_items_line_scan_witness:
  "line_action_items ''  * [x] ship it '' = [new_ActionItem ''ship it'']
   \<and> line_action_items ''- [ ] [later]'' = []
   \<and> line_action_items ''some text'' = []"
proof -
  note scan = extract_action_items_line_scan [of "[]"]
  have s1: "py_strip ''  * [x] ship it '' = ''* [x'' @ CHR '']'' # '' ship it''"
    and s2: "py_strip ''- [ ] [later]'' = ''- [ '' @ CHR '']'' # '' [later]''"
    and s3: "py_strip ''some text'' = ''some text''"
    and r1: "py_strip '' ship it'' = ''ship it''"
    and r2: "py_strip '' [later]'' = ''[later]''"
    by (simp_all add: py_strip_def py_isspace_def)
  from scan have third: "\<And>raw_line before rest.
        (py_startswith (py_strip raw_line) ''- ['' \<or> py_startswith (py_strip raw_line) ''* ['')
        \<and> py_strip raw_line = before @ CHR '']'' # rest \<and> CHR '']'' \<notin> set before \<Longrightarrow>
        line_action_items raw_line =
          (if py_strip rest \<noteq> [] \<and> \<not> py_startswith (py_strip rest) ''[''
           then [new_ActionItem (py_strip rest)] else [])"
    by blast
  from scan have second: "\<And>raw_line.
        \<not> (py_startswith (py_strip raw_line) ''- ['' \<or> py_startswith (py_strip raw_line) ''* ['')
        \<Longrightarrow> line_action_items raw_line = []"
    by blast
  have 1: "line_action_items ''  * [x] ship it '' = [new_ActionItem ''ship it'']"
    using third [of "''  * [x] ship it ''" "''* [x''" "'' ship it''"]
    by (simp add: s1 r1 py_startswith_def)
  have 2: "line_action_items ''- [ ] [later]'' = []"
    using third [of "''- [ ] [later]''" "''- [ ''" "'' [later]''"]
    by (simp add: s2 r2 py_startswith_def)
  have 3: "line_action_items ''some text'' = []"
    using second [of "''some text''"]
    by (simp add: s3 py_startswith_def)
  from 1 2 3 show ?thesis by (intro conjI)
qed

text \<open>
  Claim C7 as stated fails on a check box with no text: for the line "- [ ]" the rule
  of the specification gives one item with the empty description, and
  \<^verbatim>\<open>_extract_action_items\<close> gives none.
\<close>

theorem empty_description_is_skipped:
  "map ai_description (extract_action_items ''- [ ]'') = []
   \<and> spec_follow_up_descriptions ''- [ ]'' = [[]]"
  by (simp add: extract_action_items_def line_action_items_def py_strip_def py_isspace_def
        py_startswith_def py_split_once_def new_ActionItem_def
        spec_follow_up_descriptions_def spec_line_descriptions_def)

end
